theory Spec2Isabelle
  imports Complex_Main
begin

section \<open>The camera of the mesh viewer (canvas.cpp)\<close>

text \<open>
  The file canvas.cpp holds the camera of the viewer: an orientation matrix, a pan
  center, a fit scale, a zoom factor and a perspective factor, changed by the mouse and
  wheel handlers and read by the four matrix functions. The C++ numbers are \<open>float\<close> and
  \<open>double\<close>; the embedding computes with exact reals, so a theorem below speaks about
  the arithmetic the code writes down and not about its rounding. The angle of the
  arcball is the exception: its rounding is modelled as well. Pixel positions and the
  wheel delta are integers, as in the code.
\<close>

subsection \<open>QVector3D, QPoint and QPointF\<close>

datatype QVector3D = Vec3 (vx: real) (vy: real) (vz: real)

instantiation QVector3D :: "{zero, plus, minus, uminus}"
begin

definition zero_QVector3D :: QVector3D where
  "zero_QVector3D = Vec3 0 0 0"

definition plus_QVector3D :: "QVector3D \<Rightarrow> QVector3D \<Rightarrow> QVector3D" where
  "plus_QVector3D u v = Vec3 (vx u + vx v) (vy u + vy v) (vz u + vz v)"

definition minus_QVector3D :: "QVector3D \<Rightarrow> QVector3D \<Rightarrow> QVector3D" where
  "minus_QVector3D u v = Vec3 (vx u - vx v) (vy u - vy v) (vz u - vz v)"

definition uminus_QVector3D :: "QVector3D \<Rightarrow> QVector3D" where
  "uminus_QVector3D v = Vec3 (- vx v) (- vy v) (- vz v)"

instance ..

end

text \<open>\<open>operator/(QVector3D, float)\<close>, \<open>QVector3D::length\<close>, \<open>dotProduct\<close> and
  \<open>crossProduct\<close>.\<close>

definition vdiv :: "QVector3D \<Rightarrow> real \<Rightarrow> QVector3D" where
  "vdiv v k = Vec3 (vx v / k) (vy v / k) (vz v / k)"

definition length3 :: "QVector3D \<Rightarrow> real" where
  "length3 v = sqrt (vx v * vx v + vy v * vy v + vz v * vz v)"

definition dotProduct :: "QVector3D \<Rightarrow> QVector3D \<Rightarrow> real" where
  "dotProduct u v = vx u * vx v + vy u * vy v + vz u * vz v"

definition crossProduct :: "QVector3D \<Rightarrow> QVector3D \<Rightarrow> QVector3D" where
  "crossProduct u v =
     Vec3 (vy u * vz v - vz u * vy v)
          (vz u * vx v - vx u * vz v)
          (vx u * vy v - vy u * vx v)"

type_synonym QPoint = "int \<times> int"

type_synonym QPointF = "real \<times> real"

subsection \<open>QMatrix4x4\<close>

text \<open>
  A matrix is written by rows: \<open>m\<^sub>r\<^sub>c\<close> is the element that \<open>operator()(r, c)\<close>
  reads. The operations follow the Qt library: \<open>scale\<close>, \<open>translate\<close> and \<open>rotate\<close>
  change the matrix in place (the first two by the column arithmetic of Qt's general
  case), \<open>inverted\<close> returns the identity for a singular matrix, \<open>operator*\<close> on a
  vector maps it as a point, with the division by the fourth coordinate, and
  \<open>mapVector\<close> uses the upper left 3x3 block only.
\<close>

datatype QMatrix4x4 =
  Mat4 (m00: real) (m01: real) (m02: real) (m03: real)
       (m10: real) (m11: real) (m12: real) (m13: real)
       (m20: real) (m21: real) (m22: real) (m23: real)
       (m30: real) (m31: real) (m32: real) (m33: real)

definition identity :: QMatrix4x4 where
  "identity = Mat4 1 0 0 0  0 1 0 0  0 0 1 0  0 0 0 1"

fun mul :: "QMatrix4x4 \<Rightarrow> QMatrix4x4 \<Rightarrow> QMatrix4x4" where
  "mul (Mat4 a00 a01 a02 a03 a10 a11 a12 a13 a20 a21 a22 a23 a30 a31 a32 a33)
       (Mat4 b00 b01 b02 b03 b10 b11 b12 b13 b20 b21 b22 b23 b30 b31 b32 b33) =
     Mat4
       (a00 * b00 + a01 * b10 + a02 * b20 + a03 * b30)
       (a00 * b01 + a01 * b11 + a02 * b21 + a03 * b31)
       (a00 * b02 + a01 * b12 + a02 * b22 + a03 * b32)
       (a00 * b03 + a01 * b13 + a02 * b23 + a03 * b33)
       (a10 * b00 + a11 * b10 + a12 * b20 + a13 * b30)
       (a10 * b01 + a11 * b11 + a12 * b21 + a13 * b31)
       (a10 * b02 + a11 * b12 + a12 * b22 + a13 * b32)
       (a10 * b03 + a11 * b13 + a12 * b23 + a13 * b33)
       (a20 * b00 + a21 * b10 + a22 * b20 + a23 * b30)
       (a20 * b01 + a21 * b11 + a22 * b21 + a23 * b31)
       (a20 * b02 + a21 * b12 + a22 * b22 + a23 * b32)
       (a20 * b03 + a21 * b13 + a22 * b23 + a23 * b33)
       (a30 * b00 + a31 * b10 + a32 * b20 + a33 * b30)
       (a30 * b01 + a31 * b11 + a32 * b21 + a33 * b31)
       (a30 * b02 + a31 * b12 + a32 * b22 + a33 * b32)
       (a30 * b03 + a31 * b13 + a32 * b23 + a33 * b33)"

text \<open>The matrices that \<open>scale\<close> and \<open>translate\<close> are documented to multiply by.\<close>

definition scaling :: "real \<Rightarrow> real \<Rightarrow> real \<Rightarrow> QMatrix4x4" where
  "scaling x y z = Mat4 x 0 0 0  0 y 0 0  0 0 z 0  0 0 0 1"

definition translation :: "QVector3D \<Rightarrow> QMatrix4x4" where
  "translation v = Mat4 1 0 0 (vx v)  0 1 0 (vy v)  0 0 1 (vz v)  0 0 0 1"

text \<open>\<open>QMatrix4x4::scale(x, y, z)\<close>: the first three columns are multiplied by
  \<open>x\<close>, \<open>y\<close> and \<open>z\<close>; \<open>scale(factor)\<close> uses one factor for the three.\<close>

fun scale_xyz :: "QMatrix4x4 \<Rightarrow> real \<Rightarrow> real \<Rightarrow> real \<Rightarrow> QMatrix4x4" where
  "scale_xyz (Mat4 a00 a01 a02 a03 a10 a11 a12 a13 a20 a21 a22 a23 a30 a31 a32 a33) x y z =
     Mat4 (a00 * x) (a01 * y) (a02 * z) a03
          (a10 * x) (a11 * y) (a12 * z) a13
          (a20 * x) (a21 * y) (a22 * z) a23
          (a30 * x) (a31 * y) (a32 * z) a33"

definition scale_factor :: "QMatrix4x4 \<Rightarrow> real \<Rightarrow> QMatrix4x4" where
  "scale_factor m f = scale_xyz m f f f"

text \<open>\<open>QMatrix4x4::translate(vector)\<close>: the fourth column gains the first three
  columns weighted by the vector.\<close>

fun translate :: "QMatrix4x4 \<Rightarrow> QVector3D \<Rightarrow> QMatrix4x4" where
  "translate (Mat4 a00 a01 a02 a03 a10 a11 a12 a13 a20 a21 a22 a23 a30 a31 a32 a33) (Vec3 x y z) =
     Mat4 a00 a01 a02 (a03 + (a00 * x + a01 * y + a02 * z))
          a10 a11 a12 (a13 + (a10 * x + a11 * y + a12 * z))
          a20 a21 a22 (a23 + (a20 * x + a21 * y + a22 * z))
          a30 a31 a32 (a33 + (a30 * x + a31 * y + a32 * z))"

text \<open>\<open>QMatrix4x4::rotate(angle, axis)\<close>, the angle in degrees: nothing happens
  for the angle 0; otherwise the axis is normalised unless its squared length is 1 or 0,
  and the matrix is multiplied on the right by the rotation about it.\<close>

definition rotation :: "real \<Rightarrow> QVector3D \<Rightarrow> QMatrix4x4" where
  "rotation angle axis =
     (let c = cos (angle * pi / 180);
          s = sin (angle * pi / 180);
          len = vx axis * vx axis + vy axis * vy axis + vz axis * vz axis;
          k = (if len \<noteq> 1 \<and> len \<noteq> 0 then sqrt len else 1);
          x = vx axis / k;
          y = vy axis / k;
          z = vz axis / k;
          ic = 1 - c
      in Mat4 (x * x * ic + c) (x * y * ic - z * s) (x * z * ic + y * s) 0
              (y * x * ic + z * s) (y * y * ic + c) (y * z * ic - x * s) 0
              (x * z * ic - y * s) (y * z * ic + x * s) (z * z * ic + c) 0
              0 0 0 1)"

definition rotate4 :: "QMatrix4x4 \<Rightarrow> real \<Rightarrow> QVector3D \<Rightarrow> QMatrix4x4" where
  "rotate4 m angle axis = (if angle = 0 then m else mul m (rotation angle axis))"

text \<open>\<open>QMatrix4x4::inverted()\<close>: the adjugate over the determinant, and the identity
  when the determinant is 0.\<close>

definition matrixDet3 ::
  "real \<Rightarrow> real \<Rightarrow> real \<Rightarrow> real \<Rightarrow> real \<Rightarrow> real \<Rightarrow> real \<Rightarrow> real \<Rightarrow> real \<Rightarrow> real" where
  "matrixDet3 a b c d e f g h i =
     a * (e * i - f * h) - b * (d * i - f * g) + c * (d * h - e * g)"

fun matrixDet4 :: "QMatrix4x4 \<Rightarrow> real" where
  "matrixDet4 (Mat4 a00 a01 a02 a03 a10 a11 a12 a13 a20 a21 a22 a23 a30 a31 a32 a33) =
       a00 * matrixDet3 a11 a12 a13 a21 a22 a23 a31 a32 a33
       - a01 * matrixDet3 a10 a12 a13 a20 a22 a23 a30 a32 a33
       + a02 * matrixDet3 a10 a11 a13 a20 a21 a23 a30 a31 a33
       - a03 * matrixDet3 a10 a11 a12 a20 a21 a22 a30 a31 a32"

fun adjugate :: "QMatrix4x4 \<Rightarrow> QMatrix4x4" where
  "adjugate (Mat4 a00 a01 a02 a03 a10 a11 a12 a13 a20 a21 a22 a23 a30 a31 a32 a33) =
     Mat4
       (matrixDet3 a11 a12 a13 a21 a22 a23 a31 a32 a33)
       (- matrixDet3 a01 a02 a03 a21 a22 a23 a31 a32 a33)
       (matrixDet3 a01 a02 a03 a11 a12 a13 a31 a32 a33)
       (- matrixDet3 a01 a02 a03 a11 a12 a13 a21 a22 a23)
       (- matrixDet3 a10 a12 a13 a20 a22 a23 a30 a32 a33)
       (matrixDet3 a00 a02 a03 a20 a22 a23 a30 a32 a33)
       (- matrixDet3 a00 a02 a03 a10 a12 a13 a30 a32 a33)
       (matrixDet3 a00 a02 a03 a10 a12 a13 a20 a22 a23)
       (matrixDet3 a10 a11 a13 a20 a21 a23 a30 a31 a33)
       (- matrixDet3 a00 a01 a03 a20 a21 a23 a30 a31 a33)
       (matrixDet3 a00 a01 a03 a10 a11 a13 a30 a31 a33)
       (- matrixDet3 a00 a01 a03 a10 a11 a13 a20 a21 a23)
       (- matrixDet3 a10 a11 a12 a20 a21 a22 a30 a31 a32)
       (matrixDet3 a00 a01 a02 a20 a21 a22 a30 a31 a32)
       (- matrixDet3 a00 a01 a02 a10 a11 a12 a30 a31 a32)
       (matrixDet3 a00 a01 a02 a10 a11 a12 a20 a21 a22)"

fun smul :: "real \<Rightarrow> QMatrix4x4 \<Rightarrow> QMatrix4x4" where
  "smul k (Mat4 a00 a01 a02 a03 a10 a11 a12 a13 a20 a21 a22 a23 a30 a31 a32 a33) =
     Mat4 (k * a00) (k * a01) (k * a02) (k * a03)
          (k * a10) (k * a11) (k * a12) (k * a13)
          (k * a20) (k * a21) (k * a22) (k * a23)
          (k * a30) (k * a31) (k * a32) (k * a33)"

definition inverted :: "QMatrix4x4 \<Rightarrow> QMatrix4x4" where
  "inverted m =
     (if matrixDet4 m = 0 then identity else smul (1 / matrixDet4 m) (adjugate m))"

text \<open>\<open>operator*(QMatrix4x4, QVector3D)\<close> and \<open>mapVector\<close>.\<close>

fun map_point :: "QMatrix4x4 \<Rightarrow> QVector3D \<Rightarrow> QVector3D" where
  "map_point (Mat4 a00 a01 a02 a03 a10 a11 a12 a13 a20 a21 a22 a23 a30 a31 a32 a33) (Vec3 x y z) =
     (let x' = x * a00 + y * a01 + z * a02 + a03;
          y' = x * a10 + y * a11 + z * a12 + a13;
          z' = x * a20 + y * a21 + z * a22 + a23;
          w = x * a30 + y * a31 + z * a32 + a33
      in if w = 1 then Vec3 x' y' z' else Vec3 (x' / w) (y' / w) (z' / w))"

fun mapVector :: "QMatrix4x4 \<Rightarrow> QVector3D \<Rightarrow> QVector3D" where
  "mapVector (Mat4 a00 a01 a02 a03 a10 a11 a12 a13 a20 a21 a22 a23 a30 a31 a32 a33) (Vec3 x y z) =
     Vec3 (x * a00 + y * a01 + z * a02)
          (x * a10 + y * a11 + z * a12)
          (x * a20 + y * a21 + z * a22)"

text \<open>The assignment \<open>m(3, 2) = p\<close>.\<close>

fun set_3_2 :: "QMatrix4x4 \<Rightarrow> real \<Rightarrow> QMatrix4x4" where
  "set_3_2 (Mat4 a00 a01 a02 a03 a10 a11 a12 a13 a20 a21 a22 a23 a30 a31 a32 a33) p =
     Mat4 a00 a01 a02 a03 a10 a11 a12 a13 a20 a21 a22 a23 a30 a31 p a33"

subsection \<open>The state of a Canvas\<close>

text \<open>
  The fields of the class that the camera code reads or writes; \<open>width\<close> and \<open>height\<close>
  stand for the widget's \<open>width()\<close> and \<open>height()\<close>. The mesh, the shaders, the status
  texts and the redraw requests take no part in the camera arithmetic and are left out.
\<close>

record Canvas =
  currentTransform :: QMatrix4x4
  center :: QVector3D
  scale :: real
  zoom :: real
  perspective :: real
  invertZoom :: bool
  resetTransformOnLoad :: bool
  mouse_pos :: QPoint
  width :: int
  height :: int

datatype MouseButton = LeftButton | RightButton | MiddleButton

definition invert_zoom :: "Canvas \<Rightarrow> bool \<Rightarrow> Canvas" where
  "invert_zoom st d = st\<lparr>invertZoom := d\<rparr>"

definition setResetTransformOnLoad :: "Canvas \<Rightarrow> bool \<Rightarrow> Canvas" where
  "setResetTransformOnLoad st d = st\<lparr>resetTransformOnLoad := d\<rparr>"

definition set_perspective :: "Canvas \<Rightarrow> real \<Rightarrow> Canvas" where
  "set_perspective st p = st\<lparr>perspective := p\<rparr>"

text \<open>\<open>Canvas::resetTransform\<close>: the orientation is rebuilt from the identity by three
  rotations, and the zoom is set to 1. No other field is written.\<close>

definition initial_orientation :: QMatrix4x4 where
  "initial_orientation =
     rotate4 (rotate4 (rotate4 identity (- 90) (Vec3 1 0 0)) (180 + 15) (Vec3 0 0 1))
       15 (Vec3 1 (- sin (pi / 12)) 0)"

definition resetTransform :: "Canvas \<Rightarrow> Canvas" where
  "resetTransform st = st\<lparr>currentTransform := initial_orientation, zoom := 1\<rparr>"

text \<open>The constructor: \<open>scale(1), zoom(1)\<close>, a default (null) \<open>center\<close>, the identity
  for \<open>currentTransform\<close> and then \<open>resetTransform()\<close>. The fields it leaves to others
  are parameters.\<close>

definition Canvas_new :: "real \<Rightarrow> bool \<Rightarrow> bool \<Rightarrow> QPoint \<Rightarrow> int \<Rightarrow> int \<Rightarrow> Canvas" where
  "Canvas_new p iz rt mp w h =
     resetTransform
       \<lparr>currentTransform = identity, center = 0, scale = 1, zoom = 1, perspective = p,
        invertZoom = iz, resetTransformOnLoad = rt, mouse_pos = mp, width = w, height = h\<rparr>"

text \<open>\<open>Canvas::load_mesh\<close>, with the bounding box corners \<open>lower\<close> and \<open>upper\<close> that
  it reads from the mesh.\<close>

definition load_mesh :: "Canvas \<Rightarrow> QVector3D \<Rightarrow> QVector3D \<Rightarrow> bool \<Rightarrow> Canvas" where
  "load_mesh st lower upper is_reload =
     (if \<not> is_reload then
        (let st1 = st\<lparr>center := vdiv (lower + upper) 2,
                       scale := 2 / length3 (upper - lower),
                       zoom := 1\<rparr>
         in if resetTransformOnLoad st1 then resetTransform st1 else st1)
      else st)"

subsection \<open>The four matrices\<close>

definition orient_matrix :: "Canvas \<Rightarrow> QMatrix4x4" where
  "orient_matrix st = currentTransform st"

definition transform_matrix :: "Canvas \<Rightarrow> QMatrix4x4" where
  "transform_matrix st = translate (scale_factor (orient_matrix st) (scale st)) (- center st)"

definition aspect_matrix :: "Canvas \<Rightarrow> QMatrix4x4" where
  "aspect_matrix st =
     (if width st > height st
      then scale_xyz identity (real_of_int (- height st) / real_of_int (width st)) 1 0.5
      else scale_xyz identity (- 1) (real_of_int (width st) / real_of_int (height st)) 0.5)"

definition view_matrix :: "Canvas \<Rightarrow> QMatrix4x4" where
  "view_matrix st = set_3_2 (scale_xyz (aspect_matrix st) (zoom st) (zoom st) 1) (perspective st)"

subsection \<open>Mouse handlers\<close>

definition mousePressEvent :: "Canvas \<Rightarrow> MouseButton \<Rightarrow> QPoint \<Rightarrow> Canvas" where
  "mousePressEvent st button pos =
     (if button = LeftButton \<or> button = RightButton then st\<lparr>mouse_pos := pos\<rparr> else st)"

definition changeMouseCoordinates :: "Canvas \<Rightarrow> QPoint \<Rightarrow> QPointF" where
  "changeMouseCoordinates st p =
     (let ws2 = real_of_int (width st) / 2;
          hs2 = real_of_int (height st) / 2
      in (real_of_int (fst p) / ws2 - 1, real_of_int (snd p) / hs2 - 1))"

text \<open>
  \<open>Canvas::calcArcballTransform\<close> runs the same block on each of its two points: the
  point is lifted to the unit hemisphere when it lies in the unit disc, and pushed to
  the unit circle otherwise. The block is \<open>hemisphere\<close>; the angle of the rotation is
  \<open>arcball_angle\<close>, with the one-sided \<open>std::min(1.0f, ...)\<close> of the code.
\<close>

definition hemisphere :: "QPointF \<Rightarrow> QVector3D" where
  "hemisphere p =
     (let x = fst p; y = snd p; psq = x * x + y * y
      in if psq \<le> 1 then Vec3 x y (sqrt (1 - psq))
         else Vec3 (x / sqrt psq) (y / sqrt psq) 0)"

definition acos_argument :: "real \<Rightarrow> real" where
  "acos_argument d = min 1 d"

definition arcball_angle :: "QVector3D \<Rightarrow> QVector3D \<Rightarrow> real" where
  "arcball_angle v1 v2 = arccos (acos_argument (dotProduct v1 v2)) * 180 / pi"

definition calcArcballTransform :: "Canvas \<Rightarrow> QPointF \<Rightarrow> QPointF \<Rightarrow> Canvas" where
  "calcArcballTransform st p1 p2 =
     (let v1 = hemisphere p1;
          v2 = hemisphere p2;
          v1xv2 = crossProduct v1 v2;
          v1xv2Obj = mapVector (inverted (currentTransform st)) v1xv2;
          angle = arcball_angle v1 v2
      in st\<lparr>currentTransform := rotate4 (currentTransform st) angle v1xv2Obj\<rparr>)"

text \<open>
  The pan and the wheel handler both apply
  \<open>transform_matrix().inverted() * view_matrix().inverted()\<close> to a view vector; the
  product is \<open>unproject\<close>. The vector of the pan, built from the pixel delta \<open>d\<close>
  since the last tracked position, is \<open>pan_vector\<close>.
\<close>

definition unproject :: "Canvas \<Rightarrow> QVector3D \<Rightarrow> QVector3D" where
  "unproject st v = map_point (mul (inverted (transform_matrix st)) (inverted (view_matrix st))) v"

definition pan_vector :: "Canvas \<Rightarrow> QPoint \<Rightarrow> QVector3D" where
  "pan_vector st d =
     Vec3 (real_of_int (- fst d) / (0.5 * real_of_int (width st)))
          (real_of_int (snd d) / (0.5 * real_of_int (height st))) 0"

definition mouseMoveEvent :: "Canvas \<Rightarrow> QPoint \<Rightarrow> MouseButton set \<Rightarrow> Canvas" where
  "mouseMoveEvent st p buttons =
     (let d = (fst p - fst (mouse_pos st), snd p - snd (mouse_pos st));
          st1 =
            (if LeftButton \<in> buttons then
               calcArcballTransform st (changeMouseCoordinates st (mouse_pos st))
                 (changeMouseCoordinates st p)
             else if RightButton \<in> buttons then
               st\<lparr>center := unproject st (pan_vector st d)\<rparr>
             else st)
      in st1\<lparr>mouse_pos := p\<rparr>)"

subsection \<open>The wheel handler\<close>

text \<open>The two loops of \<open>Canvas::wheelEvent\<close>, one step of the zoom for each unit
  of the delta: \<open>i\<close> runs from 0 down to the negative delta, or up to the positive one.\<close>

function zoom_loop_down :: "bool \<Rightarrow> int \<Rightarrow> int \<Rightarrow> real \<Rightarrow> real" where
  "zoom_loop_down iz delta i z =
     (if i > delta
      then zoom_loop_down iz delta (i - 1) (if iz then z / 1.001 else z * 1.001)
      else z)"
  by pat_completeness auto
termination
  by (relation "measure (\<lambda>(iz, delta, i, z). nat (i - delta))") auto

declare zoom_loop_down.simps [simp del]

function zoom_loop_up :: "bool \<Rightarrow> int \<Rightarrow> int \<Rightarrow> real \<Rightarrow> real" where
  "zoom_loop_up iz delta i z =
     (if i < delta
      then zoom_loop_up iz delta (i + 1) (if iz then z * 1.001 else z / 1.001)
      else z)"
  by pat_completeness auto
termination
  by (relation "measure (\<lambda>(iz, delta, i, z). nat (delta - i))") auto

declare zoom_loop_up.simps [simp del]

definition wheel_zoom :: "bool \<Rightarrow> int \<Rightarrow> real \<Rightarrow> real" where
  "wheel_zoom iz delta z =
     (if delta < 0 then zoom_loop_down iz delta 0 z
      else if delta > 0 then zoom_loop_up iz delta 0 z
      else z)"

definition cursor_vector :: "Canvas \<Rightarrow> QPointF \<Rightarrow> QVector3D" where
  "cursor_vector st p =
     Vec3 (1 - fst p / (0.5 * real_of_int (width st)))
          (snd p / (0.5 * real_of_int (height st)) - 1) 0"

definition wheelEvent :: "Canvas \<Rightarrow> QPointF \<Rightarrow> int \<Rightarrow> Canvas" where
  "wheelEvent st p delta =
     (let v = cursor_vector st p;
          a = unproject st v;
          st1 = st\<lparr>zoom := wheel_zoom (invertZoom st) delta (zoom st)\<rparr>;
          b = unproject st1 v
      in st1\<lparr>center := center st1 + (b - a)\<rparr>)"

subsection \<open>Sequences of events\<close>

datatype Event =
    Wheel QPointF int
  | MouseMove QPoint "MouseButton set"
  | MousePress MouseButton QPoint
  | ResetView
  | LoadMesh QVector3D QVector3D bool
  | InvertZoom bool
  | ResetOnLoad bool
  | SetPerspective real
  | Resize int int

fun handle :: "Canvas \<Rightarrow> Event \<Rightarrow> Canvas" where
  "handle st (Wheel p delta) = wheelEvent st p delta"
| "handle st (MouseMove p buttons) = mouseMoveEvent st p buttons"
| "handle st (MousePress button p) = mousePressEvent st button p"
| "handle st ResetView = resetTransform st"
| "handle st (LoadMesh lower upper is_reload) = load_mesh st lower upper is_reload"
| "handle st (InvertZoom d) = invert_zoom st d"
| "handle st (ResetOnLoad d) = setResetTransformOnLoad st d"
| "handle st (SetPerspective p) = set_perspective st p"
| "handle st (Resize w h) = st\<lparr>width := w, height := h\<rparr>"

definition run :: "Canvas \<Rightarrow> Event list \<Rightarrow> Canvas" where
  "run st evs = foldl handle st evs"

subsection \<open>The arcball angle in floating point\<close>

text \<open>
  The rounding of the C++ numbers matters for the angle of the arcball, so this part of
  the handler is modelled a second time with it: a \<open>double\<close> is a real rounded to 53
  significant bits and a \<open>float\<close> one rounded to 24, to the nearest value and to the
  even one on a tie (IEEE 754 binary64 and binary32), once after every operation. The
  exponent range is not bounded in the model; no number of this part comes near the
  limits of either format.
\<close>

definition round_half_even :: "real \<Rightarrow> int" where
  "round_half_even x =
     (let n = \<lfloor>x\<rfloor>; r = x - of_int n
      in if r < 1 / 2 then n else if 1 / 2 < r then n + 1 else if even n then n else n + 1)"

definition rne :: "nat \<Rightarrow> real \<Rightarrow> real" where
  "rne p x =
     (if x = 0 then 0
      else let q = 2 powi (\<lfloor>log 2 \<bar>x\<bar>\<rfloor> + 1 - int p)
           in of_int (round_half_even (x / q)) * q)"

text \<open>
  \<open>changeMouseCoordinates\<close> computes in \<open>double\<close>. The block of
  \<open>calcArcballTransform\<close> computes in \<open>double\<close> and stores the three coordinates in a
  \<open>QVector3D\<close>, which holds \<open>float\<close>s. \<open>QVector3D::dotProduct\<close> multiplies and adds
  \<open>float\<close>s. \<open>acos\<close> has a value on \<open>[-1, 1]\<close> only and returns a NaN elsewhere: the
  angle is \<open>None\<close> then. The value of a defined angle is left unrounded.
\<close>

definition changeMouseCoordinates_fp :: "Canvas \<Rightarrow> QPoint \<Rightarrow> QPointF" where
  "changeMouseCoordinates_fp st p =
     (let ws2 = rne 53 (real_of_int (width st) / 2);
          hs2 = rne 53 (real_of_int (height st) / 2)
      in (rne 53 (rne 53 (real_of_int (fst p) / ws2) - 1),
          rne 53 (rne 53 (real_of_int (snd p) / hs2) - 1)))"

definition hemisphere_fp :: "QPointF \<Rightarrow> QVector3D" where
  "hemisphere_fp p =
     (let x = fst p; y = snd p;
          psq = rne 53 (rne 53 (x * x) + rne 53 (y * y))
      in if psq \<le> 1
         then Vec3 (rne 24 x) (rne 24 y) (rne 24 (rne 53 (sqrt (rne 53 (1 - psq)))))
         else Vec3 (rne 24 (rne 53 (x / rne 53 (sqrt psq))))
                   (rne 24 (rne 53 (y / rne 53 (sqrt psq))))
                   (rne 24 0))"

definition dotProduct_fp :: "QVector3D \<Rightarrow> QVector3D \<Rightarrow> real" where
  "dotProduct_fp u v =
     rne 24 (rne 24 (rne 24 (vx u * vx v) + rne 24 (vy u * vy v)) + rne 24 (vz u * vz v))"

definition arcball_angle_fp :: "QVector3D \<Rightarrow> QVector3D \<Rightarrow> real option" where
  "arcball_angle_fp v1 v2 =
     (let d = min 1 (dotProduct_fp v1 v2)
      in if - 1 \<le> d \<and> d \<le> 1 then Some (arccos d * 180 / pi) else None)"

text \<open>The angle that a mouse move to \<open>p\<close> with the left button held hands to
  \<open>rotate\<close>: \<open>mouseMoveEvent\<close> calls \<open>calcArcballTransform\<close> on the tracked position
  and on \<open>p\<close>, both through \<open>changeMouseCoordinates\<close>.\<close>

definition drag_angle_fp :: "Canvas \<Rightarrow> QPoint \<Rightarrow> real option" where
  "drag_angle_fp st p =
     arcball_angle_fp (hemisphere_fp (changeMouseCoordinates_fp st (mouse_pos st)))
       (hemisphere_fp (changeMouseCoordinates_fp st p))"

subsection \<open>Predicates and abbreviations used in the statements\<close>

text \<open>A matrix is affine when its last row is \<open>(0, 0, 0, 1)\<close>: mapping a point by it
  divides by 1. The two factors of \<open>aspect_matrix\<close> are named for the statements. A
  camera state is regular when the viewport is not empty and \<open>transform_matrix\<close> and
  \<open>view_matrix\<close> are invertible, so that \<open>inverted\<close> returns their inverses.\<close>

definition affine :: "QMatrix4x4 \<Rightarrow> bool" where
  "affine m = (m30 m = 0 \<and> m31 m = 0 \<and> m32 m = 0 \<and> m33 m = 1)"

definition aspect_x :: "Canvas \<Rightarrow> real" where
  "aspect_x st =
     (if width st > height st then - (real_of_int (height st) / real_of_int (width st)) else - 1)"

definition aspect_y :: "Canvas \<Rightarrow> real" where
  "aspect_y st =
     (if width st > height st then 1 else real_of_int (width st) / real_of_int (height st))"

definition regular :: "Canvas \<Rightarrow> bool" where
  "regular st =
     (0 < width st \<and> 0 < height st \<and> zoom st \<noteq> 0 \<and> scale st \<noteq> 0
      \<and> matrixDet4 (currentTransform st) \<noteq> 0 \<and> affine (currentTransform st))"

section \<open>Facts about the matrix operations\<close>

lemma mul_assoc: "mul (mul a b) c = mul a (mul b c)"
  by (cases a; cases b; cases c) (simp add: algebra_simps)

lemma scale_xyz_mul: "scale_xyz m x y z = mul m (scaling x y z)"
  by (cases m) (simp add: scaling_def)

lemma translate_mul: "translate m v = mul m (translation v)"
  by (cases m; cases v) (simp add: translation_def)

lemma mul_identity_left: "mul identity m = m"
  by (cases m) (simp add: identity_def)

lemma mul_identity_right: "mul m identity = m"
  by (cases m) (simp add: identity_def)

lemma adjugate_left: "mul (adjugate m) m = smul (matrixDet4 m) identity"
  by (cases m) (simp add: identity_def matrixDet3_def algebra_simps)

lemma adjugate_right: "mul m (adjugate m) = smul (matrixDet4 m) identity"
  by (cases m) (simp add: identity_def matrixDet3_def algebra_simps)

lemma mul_smul_left: "mul (smul k a) b = smul k (mul a b)"
  by (cases a; cases b) (simp add: algebra_simps)

lemma mul_smul_right: "mul a (smul k b) = smul k (mul a b)"
  by (cases a; cases b) (simp add: algebra_simps)

lemma smul_smul_identity: "d \<noteq> 0 \<Longrightarrow> smul (1 / d) (smul d identity) = identity"
  by (simp add: identity_def)

lemma inverted_left: "matrixDet4 m \<noteq> 0 \<Longrightarrow> mul (inverted m) m = identity"
  by (simp add: inverted_def mul_smul_left adjugate_left smul_smul_identity)

lemma inverted_right: "matrixDet4 m \<noteq> 0 \<Longrightarrow> mul m (inverted m) = identity"
  by (simp add: inverted_def mul_smul_right adjugate_right smul_smul_identity)

lemma inverted_unique:
  assumes "matrixDet4 m \<noteq> 0" and "mul m x = identity"
  shows "inverted m = x"
proof -
  have "inverted m = mul (inverted m) (mul m x)"
    by (simp add: assms(2) mul_identity_right)
  also have "\<dots> = mul (mul (inverted m) m) x"
    by (simp add: mul_assoc)
  also have "\<dots> = x"
    by (simp add: inverted_left[OF assms(1)] mul_identity_left)
  finally show ?thesis .
qed

lemma transform_matrix_mul:
  "transform_matrix st =
     mul (mul (orient_matrix st) (scaling (scale st) (scale st) (scale st)))
         (translation (- center st))"
  by (simp add: transform_matrix_def scale_factor_def scale_xyz_mul translate_mul)

lemma det_transform_matrix:
  "matrixDet4 (transform_matrix st) = matrixDet4 (currentTransform st) * scale st ^ 3"
  by (cases "currentTransform st"; cases "center st")
     (simp add: transform_matrix_def orient_matrix_def scale_factor_def uminus_QVector3D_def
        matrixDet3_def power3_eq_cube algebra_simps)

lemma translation_cancel: "mul (translation (- c)) (mul (translation c) m) = m"
  by (cases m; cases c) (simp add: translation_def uminus_QVector3D_def)

lemma scaling_cancel: "s \<noteq> 0 \<Longrightarrow> mul (scaling s s s) (mul (scaling (1 / s) (1 / s) (1 / s)) m) = m"
  by (cases m) (simp add: scaling_def)

lemma inverted_transform_matrix:
  assumes "matrixDet4 (currentTransform st) \<noteq> 0" and "scale st \<noteq> 0"
  shows "inverted (transform_matrix st) =
     mul (translation (center st))
       (mul (scaling (1 / scale st) (1 / scale st) (1 / scale st)) (inverted (currentTransform st)))"
proof (rule inverted_unique)
  show "matrixDet4 (transform_matrix st) \<noteq> 0"
    using assms by (simp add: det_transform_matrix)
  show "mul (transform_matrix st)
     (mul (translation (center st))
       (mul (scaling (1 / scale st) (1 / scale st) (1 / scale st)) (inverted (currentTransform st)))) = identity"
    using assms
    by (simp add: transform_matrix_mul orient_matrix_def mul_assoc translation_cancel scaling_cancel
        inverted_right)
qed

lemma aspect_matrix_scaling: "aspect_matrix st = scaling (aspect_x st) (aspect_y st) (1 / 2)"
  by (simp add: aspect_matrix_def aspect_x_def aspect_y_def identity_def scaling_def)

lemma view_matrix_explicit:
  "view_matrix st =
     Mat4 (aspect_x st * zoom st) 0 0 0
          0 (aspect_y st * zoom st) 0 0
          0 0 (1 / 2) 0
          0 0 (perspective st) 1"
  by (simp add: view_matrix_def aspect_matrix_scaling scaling_def)

lemma aspect_nonzero:
  "0 < width st \<Longrightarrow> 0 < height st \<Longrightarrow> aspect_x st \<noteq> 0 \<and> aspect_y st \<noteq> 0"
  by (simp add: aspect_x_def aspect_y_def)

lemma inverted_view_matrix:
  assumes "0 < width st" and "0 < height st" and "zoom st \<noteq> 0"
  shows "inverted (view_matrix st) =
     Mat4 (1 / (aspect_x st * zoom st)) 0 0 0
          0 (1 / (aspect_y st * zoom st)) 0 0
          0 0 2 0
          0 0 (- 2 * perspective st) 1"
proof (rule inverted_unique)
  from aspect_nonzero[OF assms(1,2)] have a: "aspect_x st \<noteq> 0" "aspect_y st \<noteq> 0" by simp_all
  show "matrixDet4 (view_matrix st) \<noteq> 0"
    using a assms(3) by (simp add: view_matrix_explicit matrixDet3_def)
  show "mul (view_matrix st)
     (Mat4 (1 / (aspect_x st * zoom st)) 0 0 0
          0 (1 / (aspect_y st * zoom st)) 0 0
          0 0 2 0
          0 0 (- 2 * perspective st) 1) = identity"
    using a assms(3) by (simp add: view_matrix_explicit identity_def)
qed

lemma affine_inverted: "affine m \<Longrightarrow> affine (inverted m)"
  by (cases m) (simp add: affine_def inverted_def identity_def matrixDet3_def)

lemma unproject_formula:
  assumes "0 < width st" and "0 < height st" and "zoom st \<noteq> 0" and "scale st \<noteq> 0"
    and "matrixDet4 (currentTransform st) \<noteq> 0" and "affine (currentTransform st)"
  shows "unproject st (Vec3 x y 0) =
     center st +
     vdiv (map_point (inverted (currentTransform st))
             (Vec3 (x / (aspect_x st * zoom st)) (y / (aspect_y st * zoom st)) 0)) (scale st)"
proof -
  from affine_inverted[OF assms(6)] have "affine (inverted (currentTransform st))" .
  then show ?thesis
    unfolding unproject_def inverted_transform_matrix[OF assms(5,4)]
      inverted_view_matrix[OF assms(1,2,3)]
    by (cases "inverted (currentTransform st)"; cases "center st")
       (simp add: affine_def translation_def scaling_def plus_QVector3D_def vdiv_def
          add_divide_distrib algebra_simps)
qed

section \<open>Facts about the wheel loops\<close>

lemma gap_rel_n: "(1 + real n / 999999) * (0.999::real) ^ n \<le> (1 / 1.001) ^ n"
proof -
  have "1 + real n * (1 / 999999) \<le> (1 + 1 / 999999 :: real) ^ n"
    by (rule Bernoulli_inequality) simp
  then have "(1 + real n * (1 / 999999)) * 0.999 ^ n \<le> (1 + 1 / 999999) ^ n * (0.999::real) ^ n"
    by (intro mult_right_mono) simp_all
  also have "\<dots> = ((1 + 1 / 999999) * 0.999) ^ n"
    by (simp only: power_mult_distrib)
  also have "(1 + 1 / 999999) * 0.999 = (1 / 1.001 :: real)"
    by simp
  finally show ?thesis by simp
qed

lemma gap_rel: "(1 + 12 / 100000) * (0.999::real) ^ 120 \<le> (1 / 1.001) ^ 120"
proof -
  define P where "P = (0.999::real) ^ 120"
  have P0: "0 \<le> P" unfolding P_def by (rule zero_le_power) simp
  have "(1 + 12 / 100000) * P \<le> (1 + real 120 / 999999) * P"
    using P0 by (intro mult_right_mono) simp_all
  also have "\<dots> \<le> (1 / 1.001) ^ 120"
    unfolding P_def by (rule gap_rel_n)
  finally show ?thesis unfolding P_def .
qed

lemma div_pow_one_over: "z / a ^ n = z * (1 / a :: real) ^ n"
  by (simp add: power_one_over)

lemma zoom_loop_down_eq:
  "zoom_loop_down iz delta i z =
     (if iz then z / 1.001 ^ nat (i - delta) else z * 1.001 ^ nat (i - delta))"
proof (induction iz delta i z rule: zoom_loop_down.induct)
  case (1 iz delta i z)
  show ?case
  proof (cases "i > delta")
    case True
    then have n: "nat (i - delta) = Suc (nat (i - 1 - delta))" by simp
    show ?thesis
      using "1"[OF True] True
      by (subst zoom_loop_down.simps) (simp add: n)
  next
    case False
    then show ?thesis by (subst zoom_loop_down.simps) simp
  qed
qed

lemma zoom_loop_up_eq:
  "zoom_loop_up iz delta i z =
     (if iz then z * 1.001 ^ nat (delta - i) else z / 1.001 ^ nat (delta - i))"
proof (induction iz delta i z rule: zoom_loop_up.induct)
  case (1 iz delta i z)
  show ?case
  proof (cases "i < delta")
    case True
    then have n: "nat (delta - i) = Suc (nat (delta - (i + 1)))" by simp
    show ?thesis
      using "1"[OF True] True
      by (subst zoom_loop_up.simps) (simp add: n)
  next
    case False
    then show ?thesis by (subst zoom_loop_up.simps) simp
  qed
qed

lemma wheel_zoom_eq:
  "wheel_zoom iz delta z =
     (if (delta < 0) \<noteq> iz then z * 1.001 ^ nat \<bar>delta\<bar> else z / 1.001 ^ nat \<bar>delta\<bar>)"
  by (simp add: wheel_zoom_def zoom_loop_down_eq zoom_loop_up_eq)

lemma zoom_wheelEvent: "zoom (wheelEvent st p delta) = wheel_zoom (invertZoom st) delta (zoom st)"
  by (simp add: wheelEvent_def Let_def)

lemma wheel_zoom_positive_delta:
  "0 < delta \<Longrightarrow> wheel_zoom False delta z = z * (1 / 1.001) ^ nat delta"
  by (simp only: wheel_zoom_eq div_pow_one_over) simp

lemma zoom_wheel_120:
  "zoom (wheelEvent (st\<lparr>invertZoom := False\<rparr>) p 120) = zoom st * (1 / 1.001) ^ 120"
proof -
  have n: "nat (120::int) = 120" by simp
  have i: "invertZoom (st\<lparr>invertZoom := False\<rparr>) = False" by simp
  have z: "zoom (st\<lparr>invertZoom := False\<rparr>) = zoom st" by simp
  have "zoom (wheelEvent (st\<lparr>invertZoom := False\<rparr>) p 120) = zoom st * (1 / 1.001) ^ nat 120"
    unfolding zoom_wheelEvent i z by (rule wheel_zoom_positive_delta) simp
  then show ?thesis
    unfolding n .
qed

lemma zoom_loop_down_pos: "0 < z \<Longrightarrow> 0 < zoom_loop_down iz delta i z"
proof (induction iz delta i z rule: zoom_loop_down.induct)
  case (1 iz delta i z)
  show ?case
  proof (cases "i > delta")
    case True
    have "0 < (if iz then z / 1.001 else z * 1.001)" using "1.prems" by simp
    from "1.IH"[OF True this] True show ?thesis
      by (subst zoom_loop_down.simps) simp
  next
    case False
    with "1.prems" show ?thesis by (subst zoom_loop_down.simps) simp
  qed
qed

lemma zoom_loop_up_pos: "0 < z \<Longrightarrow> 0 < zoom_loop_up iz delta i z"
proof (induction iz delta i z rule: zoom_loop_up.induct)
  case (1 iz delta i z)
  show ?case
  proof (cases "i < delta")
    case True
    have "0 < (if iz then z * 1.001 else z / 1.001)" using "1.prems" by simp
    from "1.IH"[OF True this] True show ?thesis
      by (subst zoom_loop_up.simps) simp
  next
    case False
    with "1.prems" show ?thesis by (subst zoom_loop_up.simps) simp
  qed
qed

lemma wheel_zoom_pos: "0 < z \<Longrightarrow> 0 < wheel_zoom iz delta z"
  by (simp add: wheel_zoom_def zoom_loop_down_pos zoom_loop_up_pos)

lemma zoom_mouseMoveEvent: "zoom (mouseMoveEvent st p buttons) = zoom st"
  by (simp add: mouseMoveEvent_def calcArcballTransform_def Let_def)

lemma zoom_load_mesh: "zoom (load_mesh st lower upper is_reload) = (if is_reload then zoom st else 1)"
  by (simp add: load_mesh_def resetTransform_def Let_def)

lemma handle_zoom_pos: "0 < zoom st \<Longrightarrow> 0 < zoom (handle st ev)"
  by (cases ev)
     (simp_all add: zoom_wheelEvent wheel_zoom_pos zoom_mouseMoveEvent zoom_load_mesh
        mousePressEvent_def resetTransform_def invert_zoom_def setResetTransformOnLoad_def
        set_perspective_def)

lemma run_zoom_pos: "0 < zoom st \<Longrightarrow> 0 < zoom (run st evs)"
  unfolding run_def
  by (induction evs arbitrary: st) (simp_all add: handle_zoom_pos)

section \<open>Facts about the wheel handler and the unprojection\<close>

lemma wheel_zoom_nonzero: "z \<noteq> 0 \<Longrightarrow> wheel_zoom iz delta z \<noteq> 0"
  by (simp add: wheel_zoom_eq)

lemma unproject_regular:
  assumes "regular st"
  shows "unproject st (Vec3 x y 0) =
     center st +
     vdiv (map_point (inverted (currentTransform st))
             (Vec3 (x / (aspect_x st * zoom st)) (y / (aspect_y st * zoom st)) 0)) (scale st)"
  using assms unfolding regular_def by (intro unproject_formula) simp_all

lemma regular_wheelEvent: "regular st \<Longrightarrow> regular (wheelEvent st p delta)"
  by (simp add: regular_def wheelEvent_def Let_def wheel_zoom_nonzero)

lemma wheelEvent_center:
  "center (wheelEvent st p delta) =
     center st + (unproject (st\<lparr>zoom := zoom (wheelEvent st p delta)\<rparr>) (cursor_vector st p)
                  - unproject st (cursor_vector st p))"
  by (simp add: wheelEvent_def Let_def)

lemma cursor_vector_wheelEvent: "cursor_vector (wheelEvent st p delta) q = cursor_vector st q"
  by (simp add: cursor_vector_def wheelEvent_def Let_def)

lemma wheelEvent_unproject:
  assumes "regular st"
  shows "unproject (wheelEvent st p delta) (- cursor_vector st p) = unproject st (- cursor_vector st p)"
    and "unproject (wheelEvent st p delta) (cursor_vector st p) =
      unproject (st\<lparr>zoom := zoom (wheelEvent st p delta)\<rparr>) (cursor_vector st p)
      + (unproject (st\<lparr>zoom := zoom (wheelEvent st p delta)\<rparr>) (cursor_vector st p)
         - unproject st (cursor_vector st p))"
proof -
  define z' where "z' = zoom (wheelEvent st p delta)"
  have z'0: "z' \<noteq> 0"
    using assms by (simp add: z'_def zoom_wheelEvent regular_def wheel_zoom_nonzero)
  have r1: "regular (st\<lparr>zoom := z'\<rparr>)" using assms z'0 by (simp add: regular_def)
  have r2: "regular (wheelEvent st p delta)" using assms by (rule regular_wheelEvent)
  have a: "aspect_x st \<noteq> 0" "aspect_y st \<noteq> 0" "zoom st \<noteq> 0" "scale st \<noteq> 0"
    using assms aspect_nonzero[of st] by (simp_all add: regular_def)
  have aff: "affine (inverted (currentTransform st))"
    using assms by (simp add: regular_def affine_inverted)
  have f: "currentTransform (wheelEvent st p delta) = currentTransform st"
      "scale (wheelEvent st p delta) = scale st"
      "aspect_x (wheelEvent st p delta) = aspect_x st"
      "aspect_y (wheelEvent st p delta) = aspect_y st"
    by (simp_all add: wheelEvent_def Let_def aspect_x_def aspect_y_def)
  have g: "aspect_x (st\<lparr>zoom := z'\<rparr>) = aspect_x st" "aspect_y (st\<lparr>zoom := z'\<rparr>) = aspect_y st"
      "currentTransform (st\<lparr>zoom := z'\<rparr>) = currentTransform st"
      "scale (st\<lparr>zoom := z'\<rparr>) = scale st" "zoom (st\<lparr>zoom := z'\<rparr>) = z'"
      "center (st\<lparr>zoom := z'\<rparr>) = center st"
    by (simp_all add: aspect_x_def aspect_y_def)
  show "unproject (wheelEvent st p delta) (- cursor_vector st p) = unproject st (- cursor_vector st p)"
    using aff a z'0
    apply (simp only: cursor_vector_def uminus_QVector3D_def QVector3D.sel minus_zero
        unproject_regular[OF r2] unproject_regular[OF assms] f wheelEvent_center
        z'_def[symmetric] unproject_regular[OF r1] g)
    apply (cases "inverted (currentTransform st)"; cases "center st")
    apply (simp add: affine_def plus_QVector3D_def minus_QVector3D_def vdiv_def
          add_divide_distrib diff_divide_distrib algebra_simps)
    done
  show "unproject (wheelEvent st p delta) (cursor_vector st p) =
      unproject (st\<lparr>zoom := zoom (wheelEvent st p delta)\<rparr>) (cursor_vector st p)
      + (unproject (st\<lparr>zoom := zoom (wheelEvent st p delta)\<rparr>) (cursor_vector st p)
         - unproject st (cursor_vector st p))"
    using aff a z'0
    apply (simp only: cursor_vector_def uminus_QVector3D_def QVector3D.sel minus_zero
        unproject_regular[OF r2] unproject_regular[OF assms] f wheelEvent_center
        z'_def[symmetric] unproject_regular[OF r1] g)
    apply (cases "inverted (currentTransform st)"; cases "center st")
    apply (simp add: affine_def plus_QVector3D_def minus_QVector3D_def vdiv_def
          add_divide_distrib diff_divide_distrib algebra_simps)
    done
qed

lemma run_wheels_unproject:
  "regular st \<Longrightarrow>
     unproject (run st (map (Wheel p) ds)) (- cursor_vector st p) = unproject st (- cursor_vector st p)
     \<and> regular (run st (map (Wheel p) ds))"
proof (induction ds arbitrary: st)
  case Nil
  then show ?case by (simp add: run_def)
next
  case (Cons d ds)
  have r: "regular (wheelEvent st p d)" using Cons.prems by (rule regular_wheelEvent)
  have "run st (map (Wheel p) (d # ds)) = run (wheelEvent st p d) (map (Wheel p) ds)"
    by (simp add: run_def)
  with Cons.IH[OF r] wheelEvent_unproject(1)[OF Cons.prems, of p d] show ?case
    by (simp add: cursor_vector_wheelEvent)
qed

lemma mouseMoveEvent_pan:
  assumes "RightButton \<in> buttons" and "LeftButton \<notin> buttons"
  shows "mouseMoveEvent st p buttons =
     st\<lparr>center :=
          unproject st (pan_vector st (fst p - fst (mouse_pos st), snd p - snd (mouse_pos st))),
        mouse_pos := p\<rparr>"
  using assms by (simp add: mouseMoveEvent_def Let_def)

lemma pan_vector_center: "pan_vector (st\<lparr>center := c\<rparr>) d = pan_vector st d"
  by (simp add: pan_vector_def)

lemma inverted_identity: "inverted identity = identity"
  by (simp add: inverted_def identity_def matrixDet3_def)

lemma map_point_mul_affine:
  "affine b \<Longrightarrow> map_point (mul a b) p = map_point a (map_point b p)"
  by (cases a; cases b; cases p) (simp add: affine_def Let_def algebra_simps)

lemma map_point_identity: "map_point identity p = p"
  by (cases p) (simp add: identity_def)

lemma affine_transform_matrix: "affine (currentTransform st) \<Longrightarrow> affine (transform_matrix st)"
  by (cases "currentTransform st"; cases "center st")
     (simp add: affine_def transform_matrix_def orient_matrix_def scale_factor_def
        uminus_QVector3D_def)

lemma map_point_transform_matrix:
  "map_point (transform_matrix st) p =
     map_point (orient_matrix st)
       (Vec3 (scale st * (vx p - vx (center st)))
             (scale st * (vy p - vy (center st)))
             (scale st * (vz p - vz (center st))))"
  by (cases "orient_matrix st"; cases p; cases "center st")
     (simp add: transform_matrix_def scale_factor_def uminus_QVector3D_def Let_def
        algebra_simps)

lemma project_unproject:
  assumes "regular st"
  shows "map_point (mul (view_matrix st) (transform_matrix st)) (unproject st (Vec3 x y 0)) = Vec3 x y 0"
proof -
  define q where "q = Vec3 (x / (aspect_x st * zoom st)) (y / (aspect_y st * zoom st)) 0"
  define Oi where "Oi = inverted (currentTransform st)"
  have aff: "affine (currentTransform st)" and det: "matrixDet4 (currentTransform st) \<noteq> 0"
    and s0: "scale st \<noteq> 0" and z0: "zoom st \<noteq> 0"
    using assms by (simp_all add: regular_def)
  have a: "aspect_x st \<noteq> 0" "aspect_y st \<noteq> 0"
    using assms aspect_nonzero[of st] by (simp_all add: regular_def)
  have affi: "affine Oi" unfolding Oi_def using aff by (rule affine_inverted)
  have u: "unproject st (Vec3 x y 0) = center st + vdiv (map_point Oi q) (scale st)"
    unfolding Oi_def q_def by (rule unproject_regular[OF assms])
  have t: "map_point (transform_matrix st) (center st + vdiv (map_point Oi q) (scale st))
      = map_point (currentTransform st) (map_point Oi q)"
    using s0 unfolding map_point_transform_matrix orient_matrix_def
    by (cases "map_point Oi q"; cases "center st")
       (simp add: plus_QVector3D_def vdiv_def)
  have "map_point (currentTransform st) (map_point Oi q) = map_point (mul (currentTransform st) Oi) q"
    by (simp add: map_point_mul_affine[OF affi])
  also have "\<dots> = q"
    unfolding Oi_def by (simp add: inverted_right[OF det] map_point_identity)
  finally have tq: "map_point (transform_matrix st) (unproject st (Vec3 x y 0)) = q"
    using t u by simp
  have v: "map_point (view_matrix st) q = Vec3 x y 0"
    using a z0 by (simp add: view_matrix_explicit q_def)
  show ?thesis
    by (simp add: map_point_mul_affine[OF affine_transform_matrix[OF aff]] tq v)
qed

lemma neg_cursor_vector:
  "- cursor_vector st p =
     Vec3 (fst p / (real_of_int (width st) / 2) - 1) (1 - snd p / (real_of_int (height st) / 2)) 0"
  by (simp add: cursor_vector_def uminus_QVector3D_def)

section \<open>Facts about rotations and the initial state\<close>

lemma affine_identity: "affine identity"
  by (simp add: affine_def identity_def)

lemma affine_rotation: "affine (rotation angle axis)"
  by (simp add: affine_def rotation_def Let_def)

lemma affine_mul: "affine a \<Longrightarrow> affine b \<Longrightarrow> affine (mul a b)"
  by (cases a; cases b) (simp add: affine_def)

lemma det_mul_affine:
  "affine a \<Longrightarrow> affine b \<Longrightarrow> matrixDet4 (mul a b) = matrixDet4 a * matrixDet4 b"
  by (cases a; cases b) (simp add: affine_def matrixDet3_def algebra_simps)

lemma det_identity: "matrixDet4 identity = 1"
  by (simp add: identity_def matrixDet3_def)

lemma det_rodrigues:
  "matrixDet4 (Mat4 (x * x * ic + c) (x * y * ic - z * s) (x * z * ic + y * s) 0
              (y * x * ic + z * s) (y * y * ic + c) (y * z * ic - x * s) 0
              (x * z * ic - y * s) (y * z * ic + x * s) (z * z * ic + c) 0
              0 0 0 1)
   = (c + ic * (x * x + y * y + z * z)) * (c * c + s * s * (x * x + y * y + z * z))"
  by (simp add: matrixDet3_def algebra_simps)

lemma normalised_axis:
  assumes "axis \<noteq> Vec3 0 0 0"
  defines "len \<equiv> vx axis * vx axis + vy axis * vy axis + vz axis * vz axis"
  defines "k \<equiv> (if len \<noteq> 1 \<and> len \<noteq> 0 then sqrt len else 1)"
  shows "vx axis / k * (vx axis / k) + vy axis / k * (vy axis / k) + vz axis / k * (vz axis / k) = 1"
proof -
  have nn: "0 \<le> len" by (simp add: len_def)
  have "len \<noteq> 0"
  proof
    assume "len = 0"
    then have "vx axis * vx axis = 0 \<and> vy axis * vy axis = 0 \<and> vz axis * vz axis = 0"
      unfolding len_def
      by (metis add_nonneg_eq_0_iff zero_le_square add_nonneg_nonneg)
    then have "axis = Vec3 0 0 0" by (cases axis) simp
    with assms(1) show False by simp
  qed
  with nn have pos: "0 < len" by simp
  have kk: "k * k = len"
  proof (cases "len = 1")
    case True then show ?thesis by (simp add: k_def)
  next
    case False with pos show ?thesis by (simp add: k_def)
  qed
  have "vx axis / k * (vx axis / k) + vy axis / k * (vy axis / k) + vz axis / k * (vz axis / k)
      = len / (k * k)"
    by (simp add: len_def add_divide_distrib)
  also have "\<dots> = 1" unfolding kk using pos by simp
  finally show ?thesis .
qed

lemma det_rotation: "axis \<noteq> Vec3 0 0 0 \<Longrightarrow> matrixDet4 (rotation angle axis) = 1"
proof -
  assume a: "axis \<noteq> Vec3 0 0 0"
  define c where "c = cos (angle * pi / 180)"
  define s where "s = sin (angle * pi / 180)"
  have cs: "c * c + s * s = 1"
    using sin_cos_squared_add3[of "angle * pi / 180"] by (simp add: c_def s_def)
  show ?thesis
    unfolding rotation_def Let_def det_rodrigues normalised_axis[OF a]
      c_def[symmetric] s_def[symmetric]
    using cs by simp
qed

lemma initial_orientation_regular:
  "affine initial_orientation \<and> matrixDet4 initial_orientation = 1"
proof -
  define r1 where "r1 = rotation (- 90) (Vec3 1 0 0)"
  define r2 where "r2 = rotation (180 + 15) (Vec3 0 0 1)"
  define r3 where "r3 = rotation 15 (Vec3 1 (- sin (pi / 12)) 0)"
  have a: "affine r1" "affine r2" "affine r3"
    by (simp_all add: r1_def r2_def r3_def affine_rotation)
  have d: "matrixDet4 r1 = 1" "matrixDet4 r2 = 1" "matrixDet4 r3 = 1"
    by (simp_all add: r1_def r2_def r3_def det_rotation)
  have io: "initial_orientation = mul (mul r1 r2) r3"
    by (simp add: initial_orientation_def rotate4_def r1_def r2_def r3_def mul_identity_left)
  show ?thesis
    unfolding io using a d by (simp add: affine_mul det_mul_affine)
qed

lemma regular_Canvas_new: "0 < w \<Longrightarrow> 0 < h \<Longrightarrow> regular (Canvas_new p iz rt mp w h)"
  by (simp add: regular_def Canvas_new_def resetTransform_def initial_orientation_regular)

section \<open>Facts about the arcball\<close>

lemma hemisphere_unit: "dotProduct (hemisphere p) (hemisphere p) = 1"
proof (cases "fst p * fst p + snd p * snd p \<le> 1")
  case True
  then show ?thesis
    by (simp add: hemisphere_def Let_def dotProduct_def)
next
  case False
  define x where "x = fst p"
  define y where "y = snd p"
  define r where "r = sqrt (x * x + y * y)"
  from False have pos: "0 < x * x + y * y" by (simp add: x_def y_def)
  then have rr: "r * r = x * x + y * y" by (simp add: r_def)
  have "x / r * (x / r) + y / r * (y / r) = (x * x + y * y) / (r * r)"
    by (simp add: add_divide_distrib)
  also have "\<dots> = 1"
  proof -
    from pos have "x * x + y * y \<noteq> 0" by linarith
    then show ?thesis unfolding rr by (rule divide_self)
  qed
  finally have "x / r * (x / r) + y / r * (y / r) = 1" .
  with False show ?thesis
    by (simp add: hemisphere_def Let_def dotProduct_def x_def y_def r_def)
qed

lemma length3_dot: "length3 v = sqrt (dotProduct v v)"
  by (simp add: length3_def dotProduct_def)

lemma dotProduct_unit_bounds:
  assumes "dotProduct u u = 1" and "dotProduct v v = 1"
  shows "- 1 \<le> dotProduct u v \<and> dotProduct u v \<le> 1"
proof -
  obtain a b c where u: "u = Vec3 a b c" by (cases u)
  obtain d e f where v: "v = Vec3 d e f" by (cases v)
  have m: "0 \<le> (a - d) * (a - d) + (b - e) * (b - e) + (c - f) * (c - f)" by simp
  have p: "0 \<le> (a + d) * (a + d) + (b + e) * (b + e) + (c + f) * (c + f)" by simp
  from assms have uu: "a * a + b * b + c * c = 1" and vv: "d * d + e * e + f * f = 1"
    by (simp_all add: u v dotProduct_def)
  have "(a - d) * (a - d) + (b - e) * (b - e) + (c - f) * (c - f)
      = (a * a + b * b + c * c) + (d * d + e * e + f * f) - 2 * (a * d + b * e + c * f)"
    by (simp add: algebra_simps)
  with m uu vv have le: "a * d + b * e + c * f \<le> 1" by simp
  have "(a + d) * (a + d) + (b + e) * (b + e) + (c + f) * (c + f)
      = (a * a + b * b + c * c) + (d * d + e * e + f * f) + 2 * (a * d + b * e + c * f)"
    by (simp add: algebra_simps)
  with p uu vv have ge: "- 1 \<le> a * d + b * e + c * f" by simp
  from le ge show ?thesis by (simp add: u v dotProduct_def)
qed

text \<open>With exact arithmetic the two hemisphere vectors have length 1, their dot product
  lies in \<open>[-1, 1]\<close>, and the angle lies between 0 and 180 degrees for every pair of
  points.\<close>

lemma arcball_angle_exact_range:
  "- 1 \<le> dotProduct (hemisphere p1) (hemisphere p2)
   \<and> dotProduct (hemisphere p1) (hemisphere p2) \<le> 1
   \<and> 0 \<le> arcball_angle (hemisphere p1) (hemisphere p2)
   \<and> arcball_angle (hemisphere p1) (hemisphere p2) \<le> 180"
proof -
  define d where "d = dotProduct (hemisphere p1) (hemisphere p2)"
  have b: "- 1 \<le> d" "d \<le> 1"
    using dotProduct_unit_bounds[OF hemisphere_unit hemisphere_unit, of p1 p2]
    by (simp_all add: d_def)
  then have a: "0 \<le> arccos d" "arccos d \<le> pi"
    by (simp_all add: arccos_lbound arccos_ubound)
  have "arccos d * 180 / pi \<le> pi * 180 / pi"
    using a(2) by (intro divide_right_mono mult_right_mono) simp_all
  then have "arccos d * 180 / pi \<le> 180" by simp
  moreover have "0 \<le> arccos d * 180 / pi" using a(1) by simp
  ultimately show ?thesis
    using b by (simp add: arcball_angle_def acos_argument_def d_def)
qed

section \<open>Facts about the rounding\<close>

text \<open>A number in the binade of \<open>2\<^sup>e\<close> is rounded on the grid of step
  \<open>2\<^sup>e\<^sup>+\<^sup>1\<^sup>-\<^sup>p\<close>; a square root is rounded to the grid point whose two
  neighbouring midpoints enclose it. The numbered facts are the roundings that occur in
  the drag from pixel \<open>(2, 28)\<close> to pixel \<open>(638, 452)\<close> in a viewport of 640 by 480,
  in the order of the computation.\<close>

lemma floor_log2_eq:
  assumes "2 powi e \<le> \<bar>x\<bar>" and "\<bar>x\<bar> < 2 powi (e + 1)"
  shows "\<lfloor>log 2 \<bar>x\<bar>\<rfloor> = e"
proof -
  have "(0::real) < 2 powi e" by (rule zero_less_power_int) simp
  with assms(1) have pos: "0 < \<bar>x\<bar>" by linarith
  have p1: "2 powr (real_of_int e) = (2::real) powi e"
    by (rule powr_real_of_int') simp_all
  have "2 powr (real_of_int (e + 1)) = (2::real) powi (e + 1)"
    by (rule powr_real_of_int') simp_all
  then have p2: "2 powr (real_of_int e + 1) = (2::real) powi (e + 1)"
    by (simp only: of_int_add of_int_1)
  have "2 powr (real_of_int e) \<le> \<bar>x\<bar> \<and> \<bar>x\<bar> < 2 powr (real_of_int e + 1)"
    unfolding p1 p2 using assms by blast
  then show ?thesis
    using floor_log_eq_powr_iff[OF pos, of 2 e] by simp
qed

lemma rne_eval:
  assumes "2 powi e \<le> \<bar>x\<bar>" and "\<bar>x\<bar> < 2 powi (e + 1)"
  shows "rne p x = of_int (round_half_even (x / 2 powi (e + 1 - int p))) * 2 powi (e + 1 - int p)"
proof -
  have "(0::real) < 2 powi e" by (rule zero_less_power_int) simp
  with assms(1) have "0 < \<bar>x\<bar>" by linarith
  then have "x \<noteq> 0" by simp
  then show ?thesis
    by (simp add: rne_def Let_def floor_log2_eq[OF assms])
qed

lemma round_half_even_near:
  assumes "\<bar>y - of_int n\<bar> < 1 / 2"
  shows "round_half_even y = n"
proof (cases "of_int n \<le> y")
  case True
  from assms have "y < of_int n + 1" by linarith
  with True have "\<lfloor>y\<rfloor> = n" by (intro floor_unique)
  with assms True show ?thesis by (simp add: round_half_even_def Let_def)
next
  case False
  from assms have lo: "of_int n - 1 \<le> y" by linarith
  from False have hi: "y < of_int n" by simp
  have f: "\<lfloor>y\<rfloor> = n - 1"
    using lo hi by (intro floor_unique) simp_all
  from assms False have "1 / 2 < y - (of_int n - 1)" by linarith
  with f show ?thesis by (simp add: round_half_even_def Let_def)
qed

lemma rne_sqrt_eval:
  assumes "(2 powi e)\<^sup>2 \<le> x" and "x < (2 powi (e + 1))\<^sup>2"
    and "1 \<le> n"
    and "((of_int n - 1 / 2) * 2 powi (e + 1 - int p))\<^sup>2 < x"
    and "x < ((of_int n + 1 / 2) * 2 powi (e + 1 - int p))\<^sup>2"
  shows "rne p (sqrt x) = of_int n * 2 powi (e + 1 - int p)"
proof -
  define q :: real where "q = 2 powi (e + 1 - int p)"
  have q: "0 < q" unfolding q_def by (rule zero_less_power_int) simp
  have e0: "(0::real) < 2 powi e" "(0::real) < 2 powi (e + 1)"
    by (rule zero_less_power_int, simp)+
  have lo: "2 powi e \<le> sqrt x" using assms(1) e0 by (intro real_le_rsqrt)
  have hi: "sqrt x < 2 powi (e + 1)" using assms(2) e0 by (intro real_less_lsqrt) simp_all
  have s0: "0 \<le> sqrt x" using lo e0 by linarith
  then have a: "\<bar>sqrt x\<bar> = sqrt x" by simp
  have n1: "(of_int n - 1 / 2) * q < sqrt x"
    using assms(4) unfolding q_def by (intro real_less_rsqrt)
  have "0 \<le> (of_int n + 1 / 2) * q" using assms(3) q by simp
  then have n2: "sqrt x < (of_int n + 1 / 2) * q"
    using assms(5) unfolding q_def by (intro real_less_lsqrt) simp_all
  have d1: "of_int n - 1 / 2 < sqrt x / q" using n1 q by (simp add: pos_less_divide_eq)
  have d2: "sqrt x / q < of_int n + 1 / 2" using n2 q by (simp add: pos_divide_less_eq)
  from d1 d2 have "\<bar>sqrt x / q - of_int n\<bar> < 1 / 2" by linarith
  then have r: "round_half_even (sqrt x / q) = n" by (rule round_half_even_near)
  have "rne p (sqrt x) = of_int (round_half_even (sqrt x / q)) * q"
    unfolding q_def using lo hi by (intro rne_eval) (simp_all add: a)
  with r show ?thesis by (simp add: q_def)
qed

lemma rne_1: "rne 53 320 = 320"
  by (subst rne_eval[of "8"]) (simp_all add: round_half_even_def Let_def power_int_minus)

lemma rne_2: "rne 53 240 = 240"
  by (subst rne_eval[of "7"]) (simp_all add: round_half_even_def Let_def power_int_minus)

lemma rne_3: "rne 53 (1 / 160) = 3602879701896397 / 576460752303423488"
  by (subst rne_eval[of "- 8"]) (simp_all add: round_half_even_def Let_def power_int_minus)

lemma rne_4: "rne 53 (- (572857872601527091 / 576460752303423488)) = - (8950904259398861 / 9007199254740992)"
  by (subst rne_eval[of "- 1"]) (simp_all add: round_half_even_def Let_def power_int_minus)

lemma rne_5: "rne 53 (7 / 60) = 4203359652212463 / 36028797018963968"
  by (subst rne_eval[of "- 4"]) (simp_all add: round_half_even_def Let_def power_int_minus)

lemma rne_6: "rne 53 (- (31825437366751505 / 36028797018963968)) = - (1989089835421969 / 2251799813685248)"
  by (subst rne_eval[of "- 1"]) (simp_all add: round_half_even_def Let_def power_int_minus)

lemma rne_7: "rne 53 (319 / 160) = 4489525878534963 / 2251799813685248"
  by (subst rne_eval[of "0"]) (simp_all add: round_half_even_def Let_def power_int_minus)

lemma rne_8: "rne 53 (2237726064849715 / 2251799813685248) = 2237726064849715 / 2251799813685248"
  by (subst rne_eval[of "- 1"]) (simp_all add: round_half_even_def Let_def power_int_minus)

lemma rne_9: "rne 53 (113 / 60) = 4240889649107217 / 2251799813685248"
  by (subst rne_eval[of "0"]) (simp_all add: round_half_even_def Let_def power_int_minus)

lemma rne_10: "rne 53 (1989089835421969 / 2251799813685248) = 1989089835421969 / 2251799813685248"
  by (subst rne_eval[of "- 1"]) (simp_all add: round_half_even_def Let_def power_int_minus)

lemma rne_11: "rne 53 (80118687060924672328457088097321 / 81129638414606681695789005144064) = 4447480553888809 / 4503599627370496"
  by (subst rne_eval[of "- 1"]) (simp_all add: round_half_even_def Let_def power_int_minus)

lemma rne_12: "rne 53 (3956478373378995722348287836961 / 5070602400912917605986812821504) = 7028117418490957 / 9007199254740992"
  by (subst rne_eval[of "- 1"]) (simp_all add: round_half_even_def Let_def power_int_minus)

lemma rne_13: "rne 53 (15923078526268575 / 9007199254740992) = 497596203945893 / 281474976710656"
  by (subst rne_eval[of "0"]) (simp_all add: round_half_even_def Let_def power_int_minus)

lemma rne_14: "rne 53 (sqrt (497596203945893 / 281474976710656)) = 5987953344737011 / 4503599627370496"
  by (rule rne_sqrt_eval[of "0" _ "5987953344737011", THEN trans]) (simp_all add: power_int_minus power2_eq_square)

lemma rne_15: "rne 53 (- (8950904259398861 / 11975906689474022)) = - (1683016164558483 / 2251799813685248)"
  by (subst rne_eval[of "- 1"]) (simp_all add: round_half_even_def Let_def power_int_minus)

lemma rne_16: "rne 53 (- (3978179670843938 / 5987953344737011)) = - (5984057473985717 / 9007199254740992)"
  by (subst rne_eval[of "- 1"]) (simp_all add: round_half_even_def Let_def power_int_minus)

lemma rne_17: "rne 24 (- (1683016164558483 / 2251799813685248)) = - (1567431 / 2097152)"
  by (subst rne_eval[of "- 1"]) (simp_all add: round_half_even_def Let_def power_int_minus)

lemma rne_18: "rne 24 (- (5984057473985717 / 9007199254740992)) = - (174159 / 262144)"
  by (subst rne_eval[of "- 1"]) (simp_all add: round_half_even_def Let_def power_int_minus)

lemma rne_20: "rne 53 (5007417941307790901665535581225 / 5070602400912917605986812821504) = 555935069236101 / 562949953421312"
  by (subst rne_eval[of "- 1"]) (simp_all add: round_half_even_def Let_def power_int_minus)

lemma rne_21: "rne 53 (15923078526268573 / 9007199254740992) = 3980769631567143 / 2251799813685248"
  by (subst rne_eval[of "0"]) (simp_all add: round_half_even_def Let_def power_int_minus)

lemma rne_22: "rne 53 (sqrt (3980769631567143 / 2251799813685248)) = 2993976672368505 / 2251799813685248"
  by (rule rne_sqrt_eval[of "0" _ "5987953344737010", THEN trans]) (simp_all add: power_int_minus power2_eq_square)

lemma rne_23: "rne 53 (447545212969943 / 598795334473701) = 1683016164558483 / 2251799813685248"
  by (subst rne_eval[of "- 1"]) (simp_all add: round_half_even_def Let_def power_int_minus)

lemma rne_24: "rne 53 (1989089835421969 / 2993976672368505) = 2992028736992859 / 4503599627370496"
  by (subst rne_eval[of "- 1"]) (simp_all add: round_half_even_def Let_def power_int_minus)

lemma rne_25: "rne 24 (1683016164558483 / 2251799813685248) = 1567431 / 2097152"
  by (subst rne_eval[of "- 1"]) (simp_all add: round_half_even_def Let_def power_int_minus)

lemma rne_26: "rne 24 (2992028736992859 / 4503599627370496) = 174159 / 262144"
  by (subst rne_eval[of "- 1"]) (simp_all add: round_half_even_def Let_def power_int_minus)

lemma rne_27: "rne 24 (- (2456839939761 / 4398046511104)) = - (9372101 / 16777216)"
  by (subst rne_eval[of "- 1"]) (simp_all add: round_half_even_def Let_def power_int_minus)

lemma rne_28: "rne 24 (- (30331357281 / 68719476736)) = - (14810233 / 33554432)"
  by (subst rne_eval[of "- 2"]) (simp_all add: round_half_even_def Let_def power_int_minus)

lemma rne_29: "rne 24 (- (33554435 / 33554432)) = - (8388609 / 8388608)"
  by (subst rne_eval[of "0"]) (simp_all add: round_half_even_def Let_def power_int_minus)

lemma rne_30: "rne 24 (- (8388609 / 8388608)) = - (8388609 / 8388608)"
  by (subst rne_eval[of "0"]) (simp_all add: round_half_even_def Let_def power_int_minus)


lemmas rne_facts = rne_1 rne_2 rne_3 rne_4 rne_5 rne_6 rne_7 rne_8 rne_9 rne_10 rne_11 rne_12 rne_13 rne_14 rne_15 rne_16 rne_17 rne_18 rne_20 rne_21 rne_22 rne_23 rne_24 rne_25 rne_26 rne_27 rne_28 rne_29 rne_30


lemma rne_zero: "rne p 0 = 0"
  by (simp add: rne_def)

lemma cm1: "changeMouseCoordinates_fp (Canvas_new 0 False False (2, 28) 640 480) (2, 28) =
    (- (8950904259398861 / 9007199254740992), - (1989089835421969 / 2251799813685248))"
  by (simp add: changeMouseCoordinates_fp_def Canvas_new_def resetTransform_def Let_def rne_facts)

lemma cm2: "changeMouseCoordinates_fp (Canvas_new 0 False False (2, 28) 640 480) (638, 452) =
    (2237726064849715 / 2251799813685248, 1989089835421969 / 2251799813685248)"
  by (simp add: changeMouseCoordinates_fp_def Canvas_new_def resetTransform_def Let_def rne_facts)

lemma h1: "hemisphere_fp (- (8950904259398861 / 9007199254740992), - (1989089835421969 / 2251799813685248))
    = Vec3 (- (1567431 / 2097152)) (- (174159 / 262144)) 0"
  by (simp add: hemisphere_fp_def Let_def rne_facts rne_zero)

lemma h2: "hemisphere_fp (2237726064849715 / 2251799813685248, 1989089835421969 / 2251799813685248)
    = Vec3 (1567431 / 2097152) (174159 / 262144) 0"
  by (simp add: hemisphere_fp_def Let_def rne_facts rne_zero)

lemma d12: "dotProduct_fp (Vec3 (- (1567431 / 2097152)) (- (174159 / 262144)) 0)
     (Vec3 (1567431 / 2097152) (174159 / 262144) 0) = - (8388609 / 8388608)"
  by (simp add: dotProduct_fp_def rne_facts rne_zero)

section \<open>The claims\<close>

text \<open>
  Claim C3 (hemisphere projection). For every point \<open>p = (x, y)\<close>: when
  \<open>x\<^sup>2 + y\<^sup>2 \<le> 1\<close> the vector is \<open>(x, y, sqrt (1 - x\<^sup>2 - y\<^sup>2))\<close>, the argument
  of the square root is not negative and \<open>z \<ge> 0\<close>; otherwise the vector is
  \<open>(x, y)\<close> divided by its length, which is positive, with \<open>z = 0\<close>. In both cases the
  vector has length 1.
\<close>

theorem hemisphere_projection:
  "(fst p * fst p + snd p * snd p \<le> 1 \<longrightarrow>
      hemisphere p = Vec3 (fst p) (snd p) (sqrt (1 - (fst p * fst p + snd p * snd p)))
      \<and> 0 \<le> 1 - (fst p * fst p + snd p * snd p)
      \<and> 0 \<le> vz (hemisphere p))
   \<and> (\<not> fst p * fst p + snd p * snd p \<le> 1 \<longrightarrow>
      hemisphere p = Vec3 (fst p / sqrt (fst p * fst p + snd p * snd p))
                          (snd p / sqrt (fst p * fst p + snd p * snd p)) 0
      \<and> 0 < fst p * fst p + snd p * snd p
      \<and> vz (hemisphere p) = 0)
   \<and> length3 (hemisphere p) = 1"
  by (simp add: length3_dot hemisphere_unit) (simp add: hemisphere_def Let_def)

theorem hemisphere_projection_witness:
  "hemisphere (0, 0) = Vec3 0 0 1 \<and> length3 (hemisphere (0, 0)) = 1
   \<and> hemisphere (3, 4) = Vec3 (3 / 5) (4 / 5) 0 \<and> length3 (hemisphere (3, 4)) = 1"
proof -
  have s: "sqrt 25 = 5" using real_sqrt_abs[of 5] by simp
  from hemisphere_projection[of "(0, 0)"] hemisphere_projection[of "(3, 4)"] s
  show ?thesis by (simp add: length3_def)
qed

text \<open>
  Claim C4 (zoom steps of a wheel event), as amended. The zoom after a wheel event of
  delta \<open>n\<close> is the zoom before, multiplied by \<open>1.001\<close> once for each of the \<open>|n|\<close>
  units when exactly one of "the delta is negative" and "invert-zoom is set" holds, and
  divided by \<open>1.001\<close> once for each unit otherwise. For a delta of 120 with invert-zoom
  off the zoom is multiplied by \<open>(1 / 1.001)\<^sup>1\<^sup>2\<^sup>0\<close>. That factor is not
  \<open>0.999\<^sup>1\<^sup>2\<^sup>0\<close>: it is larger by more than the relative \<open>1.2 \<sdot> 10\<^sup>-\<^sup>4\<close>.
\<close>

theorem wheelEvent_zoom_steps:
  "zoom (wheelEvent st p delta) =
     (if (delta < 0) \<noteq> invertZoom st then zoom st * 1.001 ^ nat \<bar>delta\<bar>
      else zoom st / 1.001 ^ nat \<bar>delta\<bar>)
   \<and> zoom (wheelEvent (st\<lparr>invertZoom := False\<rparr>) p 120) = zoom st * (1 / 1.001) ^ 120
   \<and> (1 + 12 / 100000) * 0.999 ^ 120 \<le> (1 / 1.001 :: real) ^ 120"
proof (intro conjI)
  show "zoom (wheelEvent st p delta) =
     (if (delta < 0) \<noteq> invertZoom st then zoom st * 1.001 ^ nat \<bar>delta\<bar>
      else zoom st / 1.001 ^ nat \<bar>delta\<bar>)"
    by (simp only: zoom_wheelEvent wheel_zoom_eq)
  show "zoom (wheelEvent (st\<lparr>invertZoom := False\<rparr>) p 120) = zoom st * (1 / 1.001) ^ 120"
    by (rule zoom_wheel_120)
  show "(1 + 12 / 100000) * 0.999 ^ 120 \<le> (1 / 1.001 :: real) ^ 120"
    by (rule gap_rel)
qed

text \<open>
  The claim's "multiply zoom by \<open>0.999\<^sup>1\<^sup>2\<^sup>0\<close>" fails: from the initial zoom 1, a
  wheel event of delta 120 with invert-zoom off leaves a zoom that exceeds
  \<open>0.999\<^sup>1\<^sup>2\<^sup>0\<close> by more than \<open>10\<^sup>-\<^sup>4\<close>, a thousand times the spacing of
  single precision numbers near 1.
\<close>

theorem wheelEvent_zoom_120_counterexample:
  "zoom (wheelEvent (Canvas_new 0 False False (0, 0) 800 600) (400, 300) 120)
     - zoom (Canvas_new 0 False False (0, 0) 800 600) * 0.999 ^ 120 > 1 / 10000"
proof -
  define P where "P = (0.999::real) ^ 120"
  define Q where "Q = (1 / 1.001 :: real) ^ 120"
  have z: "zoom (Canvas_new 0 False False (0, 0) 800 600) = 1"
    by (simp add: Canvas_new_def resetTransform_def)
  have i: "Canvas_new 0 False False (0, 0) 800 600
      = (Canvas_new 0 False False (0, 0) 800 600)\<lparr>invertZoom := False\<rparr>"
    by (simp add: Canvas_new_def resetTransform_def)
  have w: "zoom (wheelEvent (Canvas_new 0 False False (0, 0) 800 600) (400, 300) 120) = Q"
    by (subst i) (simp only: zoom_wheel_120 z Q_def mult_1)
  have "(0.88::real) = 1 + real 120 * (- (1 / 1000))" by simp
  also have "\<dots> \<le> (1 + (- (1 / 1000))) ^ 120"
    by (rule Bernoulli_inequality) simp
  also have "1 + (- (1 / 1000)) = (0.999::real)" by simp
  finally have low: "0.88 \<le> P" by (simp only: P_def)
  have "(1 + 12 / 100000) * P \<le> Q"
    unfolding P_def Q_def by (rule gap_rel)
  with low have "Q - 1 * P > 1 / 10000" by simp
  then show ?thesis
    by (simp only: w z P_def)
qed

text \<open>
  Claim C5 (composition order of \<open>transform_matrix\<close>). The matrix is the product
  \<open>Orient \<sdot> Scale(scale) \<sdot> Translate(- center)\<close> in this order. Acting on a point as a
  column vector, the rightmost factor is applied first: the point is moved by
  \<open>- center\<close>, then scaled, and the orientation is applied last.
\<close>

theorem transform_matrix_composition:
  "transform_matrix st =
     mul (mul (orient_matrix st) (scaling (scale st) (scale st) (scale st)))
         (translation (- center st))
   \<and> map_point (transform_matrix st) p =
       map_point (orient_matrix st)
         (Vec3 (scale st * (vx p - vx (center st)))
               (scale st * (vy p - vy (center st)))
               (scale st * (vz p - vz (center st))))"
proof
  show "transform_matrix st =
     mul (mul (orient_matrix st) (scaling (scale st) (scale st) (scale st)))
         (translation (- center st))"
    by (rule transform_matrix_mul)
  show "map_point (transform_matrix st) p =
       map_point (orient_matrix st)
         (Vec3 (scale st * (vx p - vx (center st)))
               (scale st * (vy p - vy (center st)))
               (scale st * (vz p - vz (center st))))"
    by (cases "orient_matrix st"; cases p; cases "center st")
       (simp add: transform_matrix_def scale_factor_def uminus_QVector3D_def Let_def
          algebra_simps)
qed

text \<open>
  Claim C8 (reset view), as amended. \<open>resetTransform\<close> sets the orientation to the
  initial rotation and the zoom to 1. The scale, the center and the perspective keep
  the values they had before the reset.
\<close>

theorem resetTransform_frame:
  "currentTransform (resetTransform st) = initial_orientation
   \<and> zoom (resetTransform st) = 1
   \<and> scale (resetTransform st) = scale st
   \<and> center (resetTransform st) = center st
   \<and> perspective (resetTransform st) = perspective st"
  by (simp add: resetTransform_def)

text \<open>
  The claim's "scale to 1 and center to the origin" fails: after a fresh load of a mesh
  with the bounding box \<open>(0, 0, 0)\<close> to \<open>(2, 4, 4)\<close>, a reset leaves the scale
  \<open>1/3\<close> and the center \<open>(1, 2, 2)\<close> of the load.
\<close>

theorem resetTransform_counterexample:
  "scale (run (Canvas_new 0 False False (0, 0) 800 600)
       [LoadMesh (Vec3 0 0 0) (Vec3 2 4 4) False, ResetView]) = 1 / 3
   \<and> center (run (Canvas_new 0 False False (0, 0) 800 600)
       [LoadMesh (Vec3 0 0 0) (Vec3 2 4 4) False, ResetView]) = Vec3 1 2 2"
proof -
  have "sqrt 36 = 6" using real_sqrt_abs[of 6] by simp
  then show ?thesis
    by (simp add: run_def Canvas_new_def resetTransform_def load_mesh_def Let_def
        length3_def vdiv_def plus_QVector3D_def minus_QVector3D_def)
qed

text \<open>
  Claim C9 (the zoom is never 0). A new canvas has the zoom 1, and after every sequence
  of events (wheel events, mouse moves and presses, reset view, mesh loads and reloads,
  the setters and resizes) the zoom is strictly positive, so it is not 0.
\<close>

theorem zoom_never_zero:
  "zoom (Canvas_new p iz rt mp w h) = 1
   \<and> 0 < zoom (run (Canvas_new p iz rt mp w h) evs)
   \<and> zoom (run (Canvas_new p iz rt mp w h) evs) \<noteq> 0"
proof -
  have z: "zoom (Canvas_new p iz rt mp w h) = 1"
    by (simp add: Canvas_new_def resetTransform_def)
  then have "0 < zoom (run (Canvas_new p iz rt mp w h) evs)"
    by (intro run_zoom_pos) simp
  with z show ?thesis by simp
qed

text \<open>
  Claim C1 (zoom about the cursor). With \<open>v\<close> the view vector that the handler builds
  from the cursor position, \<open>a\<close> the unprojection of \<open>v\<close> before the zoom update and
  \<open>b\<close> the unprojection of \<open>v\<close> after it, the handler adds \<open>b - a\<close> to the center.
  The vector \<open>v\<close> is the negated position of the cursor in normalised device
  coordinates: \<open>- v = (2 x / width - 1, 1 - 2 y / height, 0)\<close>. In a regular camera
  state the world point under the cursor, the unprojection of \<open>- v\<close>, is the same
  before and after the event, and after every sequence of wheel events at that cursor
  position; after the event \<open>view_matrix \<sdot> transform_matrix\<close> still maps that point to
  the cursor.
\<close>

theorem wheelEvent_zoom_about_cursor:
  assumes "regular st"
  shows "center (wheelEvent st p delta) =
       center st + (unproject (st\<lparr>zoom := zoom (wheelEvent st p delta)\<rparr>) (cursor_vector st p)
                    - unproject st (cursor_vector st p))
     \<and> - cursor_vector st p =
         Vec3 (fst p / (real_of_int (width st) / 2) - 1)
              (1 - snd p / (real_of_int (height st) / 2)) 0
     \<and> unproject (wheelEvent st p delta) (- cursor_vector st p) = unproject st (- cursor_vector st p)
     \<and> unproject (run st (map (Wheel p) ds)) (- cursor_vector st p) = unproject st (- cursor_vector st p)
     \<and> map_point
         (mul (view_matrix (wheelEvent st p delta)) (transform_matrix (wheelEvent st p delta)))
         (unproject st (- cursor_vector st p)) = - cursor_vector st p"
proof -
  have r: "regular (wheelEvent st p delta)" using assms by (rule regular_wheelEvent)
  have k: "unproject (wheelEvent st p delta) (- cursor_vector st p) = unproject st (- cursor_vector st p)"
    by (rule wheelEvent_unproject(1)[OF assms])
  have "map_point
         (mul (view_matrix (wheelEvent st p delta)) (transform_matrix (wheelEvent st p delta)))
         (unproject (wheelEvent st p delta) (- cursor_vector st p)) = - cursor_vector st p"
    unfolding neg_cursor_vector by (rule project_unproject[OF r])
  then have d: "map_point
         (mul (view_matrix (wheelEvent st p delta)) (transform_matrix (wheelEvent st p delta)))
         (unproject st (- cursor_vector st p)) = - cursor_vector st p"
    by (simp only: k)
  from wheelEvent_center[of st p delta] neg_cursor_vector[of st p] k
    run_wheels_unproject[OF assms, of p ds] d
  show ?thesis by blast
qed

theorem wheelEvent_zoom_about_cursor_witness:
  "regular (Canvas_new 0 False False (0, 0) 800 600)
   \<and> unproject (wheelEvent (Canvas_new 0 False False (0, 0) 800 600) (100, 200) 120)
        (- cursor_vector (Canvas_new 0 False False (0, 0) 800 600) (100, 200))
     = unproject (Canvas_new 0 False False (0, 0) 800 600)
        (- cursor_vector (Canvas_new 0 False False (0, 0) 800 600) (100, 200))
   \<and> unproject (run (Canvas_new 0 False False (0, 0) 800 600) (map (Wheel (100, 200)) [120, - 240, 7]))
        (- cursor_vector (Canvas_new 0 False False (0, 0) 800 600) (100, 200))
     = unproject (Canvas_new 0 False False (0, 0) 800 600)
        (- cursor_vector (Canvas_new 0 False False (0, 0) 800 600) (100, 200))"
proof -
  have r: "regular (Canvas_new 0 False False (0, 0) 800 600)"
    by (rule regular_Canvas_new) simp_all
  from r wheelEvent_zoom_about_cursor[OF r, of "(100, 200)" 120 "[120, - 240, 7]"]
  show ?thesis by blast
qed

text \<open>
  Claim C6 (aspect and view matrices). For a viewport of positive width and height the
  aspect matrix scales \<open>x\<close> by \<open>- height / width\<close>, \<open>y\<close> by 1 and \<open>z\<close> by
  \<open>1/2\<close> when the width exceeds the height, and \<open>x\<close> by \<open>- 1\<close>, \<open>y\<close> by
  \<open>width / height\<close> and \<open>z\<close> by \<open>1/2\<close> otherwise. The view matrix is the aspect
  matrix scaled by the zoom in \<open>x\<close> and \<open>y\<close> only, with the element in row 3 and
  column 2 set to the perspective.
\<close>

theorem aspect_and_view_matrix:
  assumes "0 < width st" and "0 < height st"
  shows "aspect_matrix st =
       (if width st > height st
        then scaling (- (real_of_int (height st) / real_of_int (width st))) 1 (1 / 2)
        else scaling (- 1) (real_of_int (width st) / real_of_int (height st)) (1 / 2))
     \<and> map_point (aspect_matrix st) (Vec3 x y z) =
       (if width st > height st
        then Vec3 (- (real_of_int (height st) / real_of_int (width st)) * x) y (z / 2)
        else Vec3 (- x) (real_of_int (width st) / real_of_int (height st) * y) (z / 2))
     \<and> view_matrix st =
         set_3_2 (mul (aspect_matrix st) (scaling (zoom st) (zoom st) 1)) (perspective st)
     \<and> view_matrix st =
         Mat4 (m00 (aspect_matrix st) * zoom st) 0 0 0
              0 (m11 (aspect_matrix st) * zoom st) 0 0
              0 0 (m22 (aspect_matrix st)) 0
              0 0 (perspective st) 1"
  by (simp add: view_matrix_def scale_xyz_mul[symmetric])
     (simp add: aspect_matrix_def identity_def scaling_def)

theorem aspect_and_view_matrix_witness:
  "0 < width (Canvas_new 0 False False (0, 0) 800 600)
   \<and> 0 < height (Canvas_new 0 False False (0, 0) 800 600)
   \<and> aspect_matrix (Canvas_new 0 False False (0, 0) 800 600) = scaling (- (3 / 4)) 1 (1 / 2)
   \<and> view_matrix (Canvas_new 0 False False (0, 0) 800 600) =
       Mat4 (- (3 / 4)) 0 0 0  0 1 0 0  0 0 (1 / 2) 0  0 0 0 1"
proof -
  let ?s = "Canvas_new 0 False False (0, 0) 800 600"
  have f: "width ?s = 800" "height ?s = 600" "zoom ?s = 1" "perspective ?s = 0"
    by (simp_all add: Canvas_new_def resetTransform_def)
  have a: "0 < width ?s" "0 < height ?s" by (simp_all add: f)
  have 1: "aspect_matrix ?s = scaling (- (3 / 4)) 1 (1 / 2)"
    using aspect_and_view_matrix[OF a, of 0 0 0] by (simp add: f)
  have 2: "view_matrix ?s = Mat4 (- (3 / 4)) 0 0 0  0 1 0 0  0 0 (1 / 2) 0  0 0 0 1"
    using aspect_and_view_matrix[OF a, of 0 0 0] by (simp add: f 1 scaling_def)
  from a 1 2 show ?thesis by blast
qed

text \<open>
  Claim C7 (mesh framing). On a fresh load the center is the midpoint of the bounding
  box, the scale is 2 over the length of its diagonal (for a box that is not a single
  point, where the diagonal is positive), the zoom is 1, and the orientation is the
  initial rotation when the reset-on-load preference is set and is unchanged
  otherwise. On a reload the center, the scale, the zoom and the orientation are
  unchanged.
\<close>

theorem load_mesh_framing:
  "(\<not> is_reload \<longrightarrow>
       center (load_mesh st lower upper is_reload) = vdiv (lower + upper) 2
     \<and> (lower \<noteq> upper \<longrightarrow>
          0 < length3 (upper - lower)
        \<and> scale (load_mesh st lower upper is_reload) = 2 / length3 (upper - lower))
     \<and> zoom (load_mesh st lower upper is_reload) = 1
     \<and> currentTransform (load_mesh st lower upper is_reload) =
         (if resetTransformOnLoad st then initial_orientation else currentTransform st))
   \<and> (is_reload \<longrightarrow>
       center (load_mesh st lower upper is_reload) = center st
     \<and> scale (load_mesh st lower upper is_reload) = scale st
     \<and> zoom (load_mesh st lower upper is_reload) = zoom st
     \<and> currentTransform (load_mesh st lower upper is_reload) = currentTransform st)"
proof -
  have "0 < length3 (upper - lower)" if "lower \<noteq> upper"
  proof -
    obtain a b c where u: "upper = Vec3 a b c" by (cases upper)
    obtain d e f where l: "lower = Vec3 d e f" by (cases lower)
    from that u l have "a - d \<noteq> 0 \<or> b - e \<noteq> 0 \<or> c - f \<noteq> 0" by auto
    then have "0 < (a - d) * (a - d) + (b - e) * (b - e) + (c - f) * (c - f)"
      by (metis add_pos_nonneg add_nonneg_pos zero_le_square not_real_square_gt_zero add_nonneg_nonneg)
    then show ?thesis by (simp add: length3_def u l minus_QVector3D_def)
  qed
  then show ?thesis
    by (simp add: load_mesh_def resetTransform_def Let_def)
qed

theorem load_mesh_framing_witness:
  "center (load_mesh (Canvas_new 0 False True (0, 0) 800 600) (Vec3 (- 1) (- 1) (- 1)) (Vec3 1 1 1) False)
     = Vec3 0 0 0
   \<and> scale (load_mesh (Canvas_new 0 False True (0, 0) 800 600) (Vec3 (- 1) (- 1) (- 1)) (Vec3 1 1 1) False)
     = 2 / sqrt 12
   \<and> zoom (load_mesh (Canvas_new 0 False True (0, 0) 800 600) (Vec3 (- 1) (- 1) (- 1)) (Vec3 1 1 1) False) = 1
   \<and> scale (load_mesh ((Canvas_new 0 False True (0, 0) 800 600)\<lparr>scale := 7\<rparr>)
        (Vec3 (- 1) (- 1) (- 1)) (Vec3 1 1 1) True) = 7"
  using load_mesh_framing[of False "Canvas_new 0 False True (0, 0) 800 600" "Vec3 (- 1) (- 1) (- 1)" "Vec3 1 1 1"]
    load_mesh_framing[of True "(Canvas_new 0 False True (0, 0) 800 600)\<lparr>scale := 7\<rparr>" "Vec3 (- 1) (- 1) (- 1)" "Vec3 1 1 1"]
  by (simp add: vdiv_def plus_QVector3D_def minus_QVector3D_def length3_def)


text \<open>
  Claim C10 (pan with the right button), as amended. On a mouse move with the right
  button held and the left button not held, the center is assigned
  \<open>transform_matrix\<^sup>-\<^sup>1 \<sdot> view_matrix\<^sup>-\<^sup>1\<close> applied, as a point, to
  \<open>(- dx / (width / 2), dy / (height / 2), 0)\<close>. In a regular camera state this value
  is the previous center plus the value that the same event gives from the center 0:
  \<open>transform_matrix\<close> contains the translation by the center, so the pan adds to the
  previous center. The orientation, the scale, the zoom and the perspective are
  unchanged.
\<close>

theorem pan_accumulates:
  assumes "RightButton \<in> buttons" and "LeftButton \<notin> buttons" and "regular st"
  shows "center (mouseMoveEvent st p buttons) =
       unproject st
         (Vec3 (- real_of_int (fst p - fst (mouse_pos st)) / (real_of_int (width st) / 2))
               (real_of_int (snd p - snd (mouse_pos st)) / (real_of_int (height st) / 2)) 0)
     \<and> center (mouseMoveEvent st p buttons) =
       center st + center (mouseMoveEvent (st\<lparr>center := 0\<rparr>) p buttons)
     \<and> currentTransform (mouseMoveEvent st p buttons) = currentTransform st
     \<and> scale (mouseMoveEvent st p buttons) = scale st
     \<and> zoom (mouseMoveEvent st p buttons) = zoom st
     \<and> perspective (mouseMoveEvent st p buttons) = perspective st"
proof -
  have r0: "regular (st\<lparr>center := 0\<rparr>)" using assms(3) by (simp add: regular_def)
  have g: "aspect_x (st\<lparr>center := 0\<rparr>) = aspect_x st" "aspect_y (st\<lparr>center := 0\<rparr>) = aspect_y st"
    by (simp_all add: aspect_x_def aspect_y_def)
  have z: "(0::QVector3D) + v = v" for v
    by (cases v) (simp add: zero_QVector3D_def plus_QVector3D_def)
  have pv: "pan_vector st (fst p - fst (mouse_pos st), snd p - snd (mouse_pos st)) =
      Vec3 (- real_of_int (fst p - fst (mouse_pos st)) / (real_of_int (width st) / 2))
           (real_of_int (snd p - snd (mouse_pos st)) / (real_of_int (height st) / 2)) 0"
    by (simp add: pan_vector_def)
  have 1: "center (mouseMoveEvent st p buttons) =
       unproject st
         (Vec3 (- real_of_int (fst p - fst (mouse_pos st)) / (real_of_int (width st) / 2))
               (real_of_int (snd p - snd (mouse_pos st)) / (real_of_int (height st) / 2)) 0)"
    unfolding mouseMoveEvent_pan[OF assms(1,2)] pv by simp
  have 2: "center (mouseMoveEvent st p buttons) =
       center st + center (mouseMoveEvent (st\<lparr>center := 0\<rparr>) p buttons)"
    unfolding mouseMoveEvent_pan[OF assms(1,2)] pan_vector_def
    by (simp add: unproject_regular[OF assms(3)] unproject_regular[OF r0] g z)
  have 3: "currentTransform (mouseMoveEvent st p buttons) = currentTransform st"
      "scale (mouseMoveEvent st p buttons) = scale st"
      "zoom (mouseMoveEvent st p buttons) = zoom st"
      "perspective (mouseMoveEvent st p buttons) = perspective st"
    unfolding mouseMoveEvent_pan[OF assms(1,2)] by simp_all
  from 1 2 3 show ?thesis by blast
qed

theorem pan_accumulates_witness:
  "regular ((Canvas_new 0 False False (0, 0) 800 600)\<lparr>center := Vec3 5 0 0\<rparr>)
   \<and> center (mouseMoveEvent ((Canvas_new 0 False False (0, 0) 800 600)\<lparr>center := Vec3 5 0 0\<rparr>)
        (40, 30) {RightButton})
     = center ((Canvas_new 0 False False (0, 0) 800 600)\<lparr>center := Vec3 5 0 0\<rparr>)
       + center (mouseMoveEvent
           ((Canvas_new 0 False False (0, 0) 800 600)\<lparr>center := Vec3 5 0 0\<rparr>\<lparr>center := 0\<rparr>)
           (40, 30) {RightButton})"
proof -
  have r: "regular (Canvas_new 0 False False (0, 0) 800 600)"
    by (rule regular_Canvas_new) simp_all
  then have r5: "regular ((Canvas_new 0 False False (0, 0) 800 600)\<lparr>center := Vec3 5 0 0\<rparr>)"
    by (simp add: regular_def)
  have b: "RightButton \<in> {RightButton}" "LeftButton \<notin> {RightButton}" by simp_all
  from pan_accumulates[OF b r5, of "(40, 30)"] r5 show ?thesis by blast
qed

text \<open>
  The previous center does contribute: the same move of 30 pixels to the right, from
  two states that differ in the center only, gives \<open>(5.1, 0, 0)\<close> from the center
  \<open>(5, 0, 0)\<close> and \<open>(0.1, 0, 0)\<close> from the center \<open>(0, 0, 0)\<close>.
\<close>

theorem pan_counterexample:
  "center (mouseMoveEvent
      \<lparr>currentTransform = identity, center = Vec3 5 0 0, scale = 1, zoom = 1,
       perspective = 0, invertZoom = False, resetTransformOnLoad = False, mouse_pos = (0, 0),
       width = 800, height = 600\<rparr> (30, 0) {RightButton}) = Vec3 (5 + 1 / 10) 0 0
   \<and> center (mouseMoveEvent
      \<lparr>currentTransform = identity, center = Vec3 0 0 0, scale = 1, zoom = 1,
       perspective = 0, invertZoom = False, resetTransformOnLoad = False, mouse_pos = (0, 0),
       width = 800, height = 600\<rparr> (30, 0) {RightButton}) = Vec3 (1 / 10) 0 0"
  by (simp add: mouseMoveEvent_def pan_vector_def unproject_def Let_def transform_matrix_def
      view_matrix_def aspect_matrix_def orient_matrix_def scale_factor_def identity_def
      inverted_def matrixDet3_def uminus_QVector3D_def)


text \<open>
  Claim C2 (the arcball angle is between 0 and 180 degrees and is never a NaN). The code
  limits the argument of \<open>acos\<close> from above only, by \<open>std::min(1.0f, ...)\<close>. In a
  viewport of 640 by 480 pixels, a drag with the left button from the tracked position
  \<open>(2, 28)\<close> to \<open>(638, 452)\<close> gives two opposite points outside the unit disc. Their
  hemisphere vectors are \<open>(-0.7474..., -0.6643..., 0)\<close> and its negation, the
  \<open>float\<close> dot product is \<open>- (1 + 2\<^sup>-\<^sup>2\<^sup>3)\<close>, below \<open>- 1\<close>, the minimum with 1
  leaves it there, and the angle is a NaN.
\<close>

theorem arcball_angle_not_a_number:
  "dotProduct_fp
     (hemisphere_fp (changeMouseCoordinates_fp (Canvas_new 0 False False (2, 28) 640 480) (2, 28)))
     (hemisphere_fp (changeMouseCoordinates_fp (Canvas_new 0 False False (2, 28) 640 480) (638, 452)))
   = - (8388609 / 8388608)
   \<and> drag_angle_fp (Canvas_new 0 False False (2, 28) 640 480) (638, 452) = None"
proof -
  have m: "mouse_pos (Canvas_new 0 False False (2, 28) 640 480) = (2, 28)"
    by (simp add: Canvas_new_def resetTransform_def)
  show ?thesis
    unfolding drag_angle_fp_def m
    by (simp add: cm1 cm2 h1 h2 d12 arcball_angle_fp_def)
qed

end
